theory Spec2Isabelle
  imports Main "HOL-Library.Word" "HOL-Library.Sublist" "HOL-Library.Multiset"
begin

section \<open>Errors of the storage manager\<close>

text \<open>
  A Go \<^verbatim>\<open>error\<close> value is modelled by a datatype. The package-level sentinels
  \<^verbatim>\<open>ErrShouldResetStagesStorageCache\<close> and \<^verbatim>\<open>ErrStageNotFound\<close> (created by
  \<^verbatim>\<open>errors.New\<close> in the manager package) and \<^verbatim>\<open>storage.ErrBrokenImage\<close> (declared in
  package \<^verbatim>\<open>storage\<close>) are constructors of their own, so that the comparison
  \<^verbatim>\<open>err == ErrStageNotFound\<close> of the source is equality of constructors.
  \<open>Errorf p None\<close> is a fresh error with the message \<open>p\<close>
  (\<^verbatim>\<open>fmt.Errorf("release not found")\<close>, or any error a collaborator makes), and
  \<open>Errorf p (Some e)\<close> is \<^verbatim>\<open>fmt.Errorf(p + "%s", e)\<close>: a fresh error whose message is
  \<open>p\<close> followed by the message of \<open>e\<close>. A fresh error is never identical to a sentinel.
  A nil error is \<open>None\<close> of \<open>error option\<close>.
\<close>

datatype error =
    ErrShouldResetStagesStorageCache
  | ErrStageNotFound
  | ErrBrokenImage
  | Errorf string "error option"

text \<open>
  \<^verbatim>\<open>err.Error()\<close>. The text of \<^verbatim>\<open>storage.ErrBrokenImage\<close> is fixed outside this package;
  it is the parameter \<open>bt\<close>.
\<close>

fun Error :: "string \<Rightarrow> error \<Rightarrow> string" where
  "Error bt ErrShouldResetStagesStorageCache = ''should reset storage cache''"
| "Error bt ErrStageNotFound = ''stage not found''"
| "Error bt ErrBrokenImage = bt"
| "Error bt (Errorf p None) = p"
| "Error bt (Errorf p (Some e)) = p @ Error bt e"

text \<open>
  \<^verbatim>\<open>strings.HasSuffix(s, suffix)\<close> of the Go library:
  \<^verbatim>\<open>len(s) >= len(suffix) && s[len(s)-len(suffix):] == suffix\<close>.
\<close>

definition HasSuffix :: "string \<Rightarrow> string \<Rightarrow> bool" where
  "HasSuffix s suff \<longleftrightarrow> length s \<ge> length suff \<and> drop (length s - length suff) s = suff"

definition IsStageNotFound :: "string \<Rightarrow> error option \<Rightarrow> bool" where
  "IsStageNotFound bt err =
     (case err of
        Some e \<Rightarrow> HasSuffix (Error bt e) (Error bt ErrStageNotFound)
      | None \<Rightarrow> False)"

definition ShouldResetStagesStorageCache :: "string \<Rightarrow> error option \<Rightarrow> bool" where
  "ShouldResetStagesStorageCache bt err =
     (case err of
        Some e \<Rightarrow> HasSuffix (Error bt e) (Error bt ErrShouldResetStagesStorageCache)
      | None \<Rightarrow> False)"

section \<open>Stage identifiers and descriptions\<close>

text \<open>
  \<^verbatim>\<open>image.StageID\<close>, \<^verbatim>\<open>image.Info\<close> and \<^verbatim>\<open>image.StageDescription\<close>, with the fields the
  manager reads and writes. An \<^verbatim>\<open>int64\<close> is a 64-bit word, read as two's complement.
  A pointer to a description that may be nil is a \<open>StageDescription option\<close>; the two
  pointers inside a description are taken to be set.
\<close>

type_synonym int64 = "64 word"

record StageID =
  Digest :: string
  UniqueID :: int64

record Info =
  Name :: string
  Repository :: string
  Tag :: string
  RepoDigest :: string
  ID :: string
  ParentID :: string
  Labels :: "string \<rightharpoonup> string"
  Size :: int64
  CreatedAtUnixNano :: int64

record StageDescription =
  StageID :: StageID
  Info :: Info

text \<open>
  Modelled from the spec: \<^verbatim>\<open>StageID.IsEqual\<close> of package \<^verbatim>\<open>image\<close>, whose source is not
  included. The spec's data model: a stage ID is the pair of digest and unique ID,
  and "equality is pairwise".
\<close>

definition IsEqual :: "StageID \<Rightarrow> StageID \<Rightarrow> bool" where
  "IsEqual a b \<longleftrightarrow> Digest a = Digest b \<and> UniqueID a = UniqueID b"

subsection \<open>Decimal formatting\<close>

text \<open>The verb \<^verbatim>\<open>%d\<close> of \<^verbatim>\<open>fmt.Sprintf\<close> on an \<^verbatim>\<open>int64\<close>: a minus sign for a negative
  value, then the decimal digits.\<close>

definition digit :: "nat \<Rightarrow> char" where
  "digit n = ''0123456789'' ! (n mod 10)"

fun FormatUint :: "nat \<Rightarrow> string" where
  "FormatUint n = (if n < 10 then [digit n] else FormatUint (n div 10) @ [digit n])"

declare FormatUint.simps [simp del]

definition FormatInt :: "int64 \<Rightarrow> string" where
  "FormatInt i = (if sint i < 0 then CHR ''-'' # FormatUint (nat (- sint i))
                  else FormatUint (nat (sint i)))"

section \<open>Outcomes and collaborators\<close>

text \<open>
  A call either returns a value, returns an error, or panics. Everything outside the
  manager (the storage tiers, the container runtime, the image objects, the manifest
  cache, the lock managers, the index cache) acts on a world \<open>'w\<close>, which the model passes
  along explicitly: a collaborator's operation takes the world and returns its outcome
  with the new world. Log output is not part of the model.
\<close>

datatype panic = NilPointerDereference | FailedTypeAssertion | IndexOutOfRange | PanicError error

datatype 'a res = Ok 'a | Err error | Panic panic

text \<open>
  \<^verbatim>\<open>storage.StagesStorage\<close>: the interface of a storage tier, with the methods the
  manager calls. \<open>'img\<close> is a reference to an image object of the container runtime.
\<close>

record ('w, 'img) StagesStorage =
  String :: string
  Address :: string
  ConstructStageImageName :: "string \<Rightarrow> string \<Rightarrow> int64 \<Rightarrow> string"
  GetStagesIDs :: "string \<Rightarrow> 'w \<Rightarrow> StageID list res \<times> 'w"
  GetStagesIDsByDigest :: "string \<Rightarrow> string \<Rightarrow> 'w \<Rightarrow> StageID list res \<times> 'w"
  GetStageDescription ::
    "string \<Rightarrow> string \<Rightarrow> int64 \<Rightarrow> 'w \<Rightarrow> StageDescription option res \<times> 'w"
  RejectStage :: "string \<Rightarrow> string \<Rightarrow> int64 \<Rightarrow> 'w \<Rightarrow> unit res \<times> 'w"
  ShouldFetchImage :: "'img \<Rightarrow> 'w \<Rightarrow> bool res \<times> 'w"
  FetchImage :: "'img \<Rightarrow> 'w \<Rightarrow> unit res \<times> 'w"
  StoreImage :: "'img \<Rightarrow> 'w \<Rightarrow> unit res \<times> 'w"

subsection \<open>Rebranding a description for a tier\<close>

text \<open>
  \<^verbatim>\<open>convertStageDescriptionForStagesStorage\<close>. The name is
  \<^verbatim>\<open>fmt.Sprintf("%s:%s-%d", address, digest, uniqueID)\<close>. (The source takes a pointer and
  panics on nil at the first field it reads; callers that can hold nil are modelled with
  that case spelled out.)
\<close>

definition convertStageDescriptionForStagesStorage ::
  "StageDescription \<Rightarrow> ('w, 'img) StagesStorage \<Rightarrow> StageDescription" where
  "convertStageDescriptionForStagesStorage stageDesc stagesStorage =
     \<lparr> StageID = \<lparr> Digest = Digest (StageID stageDesc),
                   UniqueID = UniqueID (StageID stageDesc) \<rparr>,
       Info = \<lparr> Name = Address stagesStorage @ '':'' @ Digest (StageID stageDesc) @ ''-''
                       @ FormatInt (UniqueID (StageID stageDesc)),
                Repository = Address stagesStorage,
                Tag = Tag (Info stageDesc),
                RepoDigest = RepoDigest (Info stageDesc),
                ID = ID (Info stageDesc),
                ParentID = ParentID (Info stageDesc),
                Labels = Labels (Info stageDesc),
                Size = Size (Info stageDesc),
                CreatedAtUnixNano = CreatedAtUnixNano (Info stageDesc) \<rparr> \<rparr>"

section \<open>The storage manager and its collaborators\<close>

text \<open>
  \<open>checked call wrap rest\<close> is the idiom
  \<^verbatim>\<open>if x, err := call(); err != nil { return wrap(err) }\<close> followed by \<open>rest x\<close>;
  \<open>wrap\<close> sees the world in which the call failed. A panic of the call goes to the caller.
\<close>

definition checked ::
  "('w \<Rightarrow> 'a res \<times> 'w) \<Rightarrow> ('w \<Rightarrow> error \<Rightarrow> error) \<Rightarrow> ('a \<Rightarrow> 'w \<Rightarrow> 'b res \<times> 'w)
   \<Rightarrow> 'w \<Rightarrow> 'b res \<times> 'w" where
  "checked call wrap rest w =
     (case call w of
        (Ok a, w') \<Rightarrow> rest a w'
      | (Err err, w') \<Rightarrow> (Err (wrap w' err), w')
      | (Panic p, w') \<Rightarrow> (Panic p, w'))"

text \<open>A deferred call runs when the body has finished; its own result is dropped.\<close>

definition deferred :: "('w \<Rightarrow> 'a res \<times> 'w) \<Rightarrow> 'b res \<times> 'w \<Rightarrow> 'b res \<times> 'w" where
  "deferred call body =
     (case body of (r, w) \<Rightarrow>
        (case call w of
           (Panic p, w') \<Rightarrow> (Panic p, w')
         | (_, w') \<Rightarrow> (r, w')))"

record LockHandle =
  UUID :: string
  LockName :: string

text \<open>\<^verbatim>\<open>storage.LockManager\<close>: the per-digest lock of the index cache.\<close>

record 'w LockManager =
  LockStageCache :: "string \<Rightarrow> string \<Rightarrow> 'w \<Rightarrow> LockHandle res \<times> 'w"
  Unlock :: "LockHandle \<Rightarrow> 'w \<Rightarrow> unit res \<times> 'w"

text \<open>
  \<^verbatim>\<open>storage.StagesStorageCache\<close>: the index cache. Its \<^verbatim>\<open>GetStagesByDigest\<close> returns a
  triple (found, stage IDs, error), all three of which the manager reads.
\<close>

record 'w StagesStorageCache =
  Cache_String :: string
  Cache_GetStagesByDigest ::
    "string \<Rightarrow> string \<Rightarrow> 'w \<Rightarrow> (bool \<times> StageID list \<times> error option) \<times> 'w"
  Cache_StoreStagesByDigest :: "string \<Rightarrow> string \<Rightarrow> StageID list \<Rightarrow> 'w \<Rightarrow> unit res \<times> 'w"
  Cache_DeleteAllStages :: "string \<Rightarrow> 'w \<Rightarrow> unit res \<times> 'w"

text \<open>\<^verbatim>\<open>container_runtime.ContainerRuntime\<close>, and whether its dynamic type is
  \<^verbatim>\<open>*container_runtime.LocalDockerServerRuntime\<close> (the manager asserts that type).\<close>

record ('w, 'img) ContainerRuntime =
  IsLocalDockerServerRuntime :: bool
  RenameImage :: "'img \<Rightarrow> string \<Rightarrow> bool \<Rightarrow> 'w \<Rightarrow> unit res \<times> 'w"
  RefreshImageObject :: "'img \<Rightarrow> 'w \<Rightarrow> unit res \<times> 'w"

text \<open>\<^verbatim>\<open>stage.Interface\<close>; \<open>'c\<close> is the conveyor handed to the selection policy.\<close>

record ('w, 'img, 'c) Stage =
  GetImage :: 'img
  LogDetailedName :: string
  Stage_Name :: string
  GetDigest :: string
  Stage_SelectSuitableStage ::
    "'c \<Rightarrow> StageDescription list \<Rightarrow> 'w \<Rightarrow> StageDescription option res \<times> 'w"

record Time =
  Unix :: int64
  Nanosecond :: nat

text \<open>
  What the manager uses of other packages: the text of \<^verbatim>\<open>storage.ErrBrokenImage\<close> and
  \<^verbatim>\<open>storage.LocalStorageAddress\<close>, the formatting verb \<^verbatim>\<open>%q\<close> and \<^verbatim>\<open>StageID.String()\<close>,
  the host lock (\<^verbatim>\<open>werf.AcquireHostLock\<close>), the LRU tracker
  (\<^verbatim>\<open>lrumeta.CommonLRUImagesCache\<close>), the manifest cache (\<^verbatim>\<open>image.CommonManifestCache\<close>),
  the image objects, \<^verbatim>\<open>yaml.Marshal\<close> and the clock (\<^verbatim>\<open>time.Now().UTC()\<close>, with
  \<open>Nanosecond\<close> in the range 0 to 999999999).
\<close>

record ('w, 'img) Env =
  ErrBrokenImageText :: string
  LocalStorageAddress :: string
  Quote :: "string \<Rightarrow> string"
  StageID_String :: "StageID \<Rightarrow> string"
  ImageLockName :: "string \<Rightarrow> string"
  AcquireHostLock :: "string \<Rightarrow> 'w \<Rightarrow> LockHandle res \<times> 'w"
  AccessImage :: "string \<Rightarrow> 'w \<Rightarrow> unit res \<times> 'w"
  GetImageInfo :: "string \<Rightarrow> string \<Rightarrow> 'w \<Rightarrow> Info option res \<times> 'w"
  StoreImageInfo :: "string \<Rightarrow> Info \<Rightarrow> 'w \<Rightarrow> unit res \<times> 'w"
  NewStageImage :: "string \<Rightarrow> 'w \<Rightarrow> 'img \<times> 'w"
  Image_Name :: "'img \<Rightarrow> 'w \<Rightarrow> string"
  Image_GetStageDescription :: "'img \<Rightarrow> 'w \<Rightarrow> StageDescription option"
  Image_SetStageDescription :: "'img \<Rightarrow> StageDescription \<Rightarrow> 'w \<Rightarrow> 'w"
  yaml_Marshal :: "StageDescription \<Rightarrow> string res"
  TimeNow :: "'w \<Rightarrow> Time \<times> 'w"

text \<open>\<^verbatim>\<open>StagesList\<close>; the mutex is not modelled (one caller at a time).\<close>

record StagesList =
  StageIDs :: "StageID list"

definition NewStagesList :: "StageID list \<Rightarrow> StagesList" where
  "NewStagesList stageIDs = \<lparr> StageIDs = stageIDs \<rparr>"

definition GetStageIDs :: "StagesList \<Rightarrow> StageID list" where
  "GetStageIDs stages = foldl (\<lambda>res stg. res @ [stg]) [] (StageIDs stages)"

definition AddStageID :: "StageID \<Rightarrow> StagesList \<Rightarrow> StagesList" where
  "AddStageID stageID stages =
     (if list_ex (\<lambda>stg. IsEqual stg stageID) (StageIDs stages) then stages
      else stages\<lparr> StageIDs := StageIDs stages @ [stageID] \<rparr>)"

record ('w, 'img) StorageManager =
  parallel :: bool
  parallelTasksLimit :: int
  ProjectName :: string
  StorageLockManager :: "'w LockManager"
  StagesStorageCache :: "'w StagesStorageCache"
  StagesStorage :: "('w, 'img) StagesStorage"
  FinalStagesStorage :: "('w, 'img) StagesStorage option"
  CacheStagesStorageList :: "('w, 'img) StagesStorage list"
  SecondaryStagesStorageList :: "('w, 'img) StagesStorage list"
  SharedHostImagesLocks :: "LockHandle list"
  FinalStagesListCache :: "StagesList option"

definition MaxNumberOfWorkers :: "('w, 'img) StorageManager \<Rightarrow> int" where
  "MaxNumberOfWorkers m =
     (if parallel m \<and> parallelTasksLimit m > 0 then parallelTasksLimit m else 1)"

subsection \<open>Unique IDs\<close>

text \<open>
  The inner loop of \<^verbatim>\<open>GenerateStageUniqueID\<close> over the candidates. Its only statement is
  \<^verbatim>\<open>if stageDesc.Info.Name == imageName { continue }\<close>, and the \<^verbatim>\<open>continue\<close> belongs to
  this loop: either way the loop goes on with the next candidate.
\<close>

fun candidatesLoop :: "string \<Rightarrow> StageDescription list \<Rightarrow> unit" where
  "candidatesLoop imageName [] = ()"
| "candidatesLoop imageName (stageDesc # stages) =
     (if Name (Info stageDesc) = imageName then candidatesLoop imageName stages
      else candidatesLoop imageName stages)"

text \<open>
  \<^verbatim>\<open>GenerateStageUniqueID\<close>. The body of the outer \<^verbatim>\<open>for\<close> ends in \<^verbatim>\<open>return\<close>, so it runs
  once. The arithmetic is that of \<^verbatim>\<open>int64\<close>.
\<close>

definition GenerateStageUniqueID ::
  "('w, 'img) Env \<Rightarrow> ('w, 'img) StorageManager \<Rightarrow> string \<Rightarrow> StageDescription list \<Rightarrow> 'w
   \<Rightarrow> (string \<times> int64) \<times> 'w" where
  "GenerateStageUniqueID env m digest stages w =
     (case TimeNow env w of (timeNow, w1) \<Rightarrow>
        (let uniqueID = Unix timeNow * 1000 + of_nat (Nanosecond timeNow div 1000000);
             imageName = ConstructStageImageName (StagesStorage m) (ProjectName m) digest uniqueID
         in case candidatesLoop imageName stages of () \<Rightarrow> ((imageName, uniqueID), w1)))"

subsection \<open>Selecting a suitable stage\<close>

definition SelectSuitableStage ::
  "('w, 'img) Env \<Rightarrow> ('w, 'img) StorageManager \<Rightarrow> 'c \<Rightarrow> ('w, 'img, 'c) Stage
   \<Rightarrow> StageDescription list \<Rightarrow> 'w \<Rightarrow> StageDescription option res \<times> 'w" where
  "SelectSuitableStage env m c stg stages w =
     (if length stages = 0 then (Ok None, w)
      else
        (case Stage_SelectSuitableStage stg c stages w of
           (Err err, w1) \<Rightarrow> (Err err, w1)
         | (Panic p, w1) \<Rightarrow> (Panic p, w1)
         | (Ok None, w1) \<Rightarrow> (Ok None, w1)
         | (Ok (Some stageDesc), w1) \<Rightarrow>
             (case yaml_Marshal env stageDesc of
                Err err \<Rightarrow> (Panic (PanicError err), w1)
              | Panic p \<Rightarrow> (Panic p, w1)
              | Ok imgInfoData \<Rightarrow> (Ok (Some stageDesc), w1))))"

subsection \<open>The manifest cache\<close>

definition getStageDescriptionFromLocalManifestCache ::
  "('w, 'img) Env \<Rightarrow> string \<Rightarrow> StageID \<Rightarrow> ('w, 'img) StagesStorage \<Rightarrow> 'w
   \<Rightarrow> StageDescription option res \<times> 'w" where
  "getStageDescriptionFromLocalManifestCache env projectName stageID stagesStorage =
     (let stageImageName =
            ConstructStageImageName stagesStorage projectName (Digest stageID) (UniqueID stageID)
      in checked (GetImageInfo env (String stagesStorage) stageImageName)
           (\<lambda>w err. Errorf (''error getting image '' @ stageImageName @ '' info: '') (Some err))
           (\<lambda>imgInfo w.
              case imgInfo of
                Some i \<Rightarrow>
                  (Ok (Some \<lparr> StageID = \<lparr> Digest = Digest stageID, UniqueID = UniqueID stageID \<rparr>,
                              Info = i \<rparr>), w)
              | None \<Rightarrow> (Ok None, w)))"

text \<open>The description is a pointer that the function reads through (\<^verbatim>\<open>stageDesc.Info\<close>).\<close>

definition storeStageDescriptionIntoLocalManifestCache ::
  "('w, 'img) Env \<Rightarrow> string \<Rightarrow> StageID \<Rightarrow> ('w, 'img) StagesStorage
   \<Rightarrow> StageDescription option \<Rightarrow> 'w \<Rightarrow> unit res \<times> 'w" where
  "storeStageDescriptionIntoLocalManifestCache env projectName stageID stagesStorage stageDesc =
     (let stageImageName =
            ConstructStageImageName stagesStorage projectName (Digest stageID) (UniqueID stageID)
      in case stageDesc of
           None \<Rightarrow> (\<lambda>w. (Panic NilPointerDereference, w))
         | Some sd \<Rightarrow>
             checked (StoreImageInfo env (String stagesStorage) (Info sd))
               (\<lambda>w err. Errorf (''error storing image '' @ stageImageName @ '' info: '') (Some err))
               (\<lambda>_ w. (Ok (), w)))"

subsection \<open>The stage descriptor resolver\<close>

record getStageDescriptionOptions =
  AllowStagesStorageCacheReset :: bool
  WithLocalManifestCache :: bool

text \<open>
  The loop of \<^verbatim>\<open>getStageDescription\<close> over the cache tiers. \<open>Ok (Some d)\<close> and \<open>Err e\<close> are
  what the function returns from inside the loop; \<open>Ok None\<close> says that the loop ran to
  its end.
\<close>

fun getStageDescriptionFromCacheTiers ::
  "('w, 'img) Env \<Rightarrow> string \<Rightarrow> StageID \<Rightarrow> ('w, 'img) StagesStorage
   \<Rightarrow> getStageDescriptionOptions \<Rightarrow> ('w, 'img) StagesStorage list \<Rightarrow> 'w
   \<Rightarrow> StageDescription option res \<times> 'w" where
  "getStageDescriptionFromCacheTiers env projectName stageID stagesStorage opts [] w = (Ok None, w)"
| "getStageDescriptionFromCacheTiers env projectName stageID stagesStorage opts
     (cacheStagesStorage # rest) w =
     (case (if WithLocalManifestCache opts
            then getStageDescriptionFromLocalManifestCache env projectName stageID
                   cacheStagesStorage w
            else (Ok None, w)) of
        (Err err, w1) \<Rightarrow>
          (Err (Errorf (''error getting stage '' @ StageID_String env stageID
                        @ '' description from the local manifest cache: '') (Some err)), w1)
      | (Panic p, w1) \<Rightarrow> (Panic p, w1)
      | (Ok (Some stageDesc), w1) \<Rightarrow>
          (Ok (Some (convertStageDescriptionForStagesStorage stageDesc stagesStorage)), w1)
      | (Ok None, w1) \<Rightarrow>
          (case GetStageDescription cacheStagesStorage projectName (Digest stageID)
                  (UniqueID stageID) w1 of
             (Err err, w2) \<Rightarrow>
               getStageDescriptionFromCacheTiers env projectName stageID stagesStorage opts rest w2
           | (Panic p, w2) \<Rightarrow> (Panic p, w2)
           | (Ok None, w2) \<Rightarrow>
               getStageDescriptionFromCacheTiers env projectName stageID stagesStorage opts rest w2
           | (Ok (Some stageDesc), w2) \<Rightarrow>
               (case (if WithLocalManifestCache opts
                      then storeStageDescriptionIntoLocalManifestCache env projectName stageID
                             cacheStagesStorage (Some stageDesc) w2
                      else (Ok (), w2)) of
                  (Err err, w3) \<Rightarrow>
                    (Err (Errorf (''error storing stage '' @ StageID_String env stageID
                                  @ '' description into local manifest cache: '') (Some err)), w3)
                | (Panic p, w3) \<Rightarrow> (Panic p, w3)
                | (Ok _, w3) \<Rightarrow>
                    (Ok (Some (convertStageDescriptionForStagesStorage stageDesc stagesStorage)),
                     w3))))"

text \<open>
  The first part of \<^verbatim>\<open>getStageDescription\<close>: the manifest cache for the target tier, then
  the cache tiers. \<open>Ok None\<close>: nothing found, the target tier itself is asked next.
\<close>

definition getStageDescriptionFromCaches ::
  "('w, 'img) Env \<Rightarrow> string \<Rightarrow> StageID \<Rightarrow> ('w, 'img) StagesStorage
   \<Rightarrow> ('w, 'img) StagesStorage list \<Rightarrow> getStageDescriptionOptions \<Rightarrow> 'w
   \<Rightarrow> StageDescription option res \<times> 'w" where
  "getStageDescriptionFromCaches env projectName stageID stagesStorage cacheStagesStorageList
     opts w =
     (case (if WithLocalManifestCache opts
            then getStageDescriptionFromLocalManifestCache env projectName stageID stagesStorage w
            else (Ok None, w)) of
        (Err err, w1) \<Rightarrow>
          (Err (Errorf (''error getting stage '' @ StageID_String env stageID
                        @ '' description from '' @ String stagesStorage @ '': '') (Some err)), w1)
      | (Panic p, w1) \<Rightarrow> (Panic p, w1)
      | (Ok (Some stageDesc), w1) \<Rightarrow> (Ok (Some stageDesc), w1)
      | (Ok None, w1) \<Rightarrow>
          getStageDescriptionFromCacheTiers env projectName stageID stagesStorage opts
            cacheStagesStorageList w1)"

text \<open>The last part of \<^verbatim>\<open>getStageDescription\<close>: the target tier itself.\<close>

definition getStageDescriptionFromStagesStorage ::
  "('w, 'img) Env \<Rightarrow> string \<Rightarrow> StageID \<Rightarrow> ('w, 'img) StagesStorage
   \<Rightarrow> getStageDescriptionOptions \<Rightarrow> 'w \<Rightarrow> StageDescription option res \<times> 'w" where
  "getStageDescriptionFromStagesStorage env projectName stageID stagesStorage opts w =
     (case GetStageDescription stagesStorage projectName (Digest stageID) (UniqueID stageID) w of
        (Panic p, w1) \<Rightarrow> (Panic p, w1)
      | (Err err, w1) \<Rightarrow>
          (if err = ErrBrokenImage then
             (if AllowStagesStorageCacheReset opts then
                (let stageImageName = ConstructStageImageName stagesStorage projectName
                                        (Digest stageID) (UniqueID stageID)
                 in checked
                      (RejectStage stagesStorage projectName (Digest stageID) (UniqueID stageID))
                      (\<lambda>w err. Errorf (''unable to reject stage '' @ StageID_String env stageID
                                 @ '' image '' @ stageImageName @ '' in the stages storage ''
                                 @ String stagesStorage @ '': '') (Some err))
                      (\<lambda>_ w2. (Err ErrShouldResetStagesStorageCache, w2)) w1)
              else (Ok None, w1))
           else
             (Err (Errorf (''error getting digest '' @ Quote env (Digest stageID)
                           @ '' uniqueID '' @ FormatInt (UniqueID stageID)
                           @ '' stage info from '' @ String stagesStorage @ '': '') (Some err)),
              w1))
      | (Ok (Some stageDesc), w1) \<Rightarrow>
          (case (if WithLocalManifestCache opts
                 then storeStageDescriptionIntoLocalManifestCache env projectName stageID
                        stagesStorage (Some stageDesc) w1
                 else (Ok (), w1)) of
             (Err err, w2) \<Rightarrow>
               (Err (Errorf (''error storing stage '' @ StageID_String env stageID
                             @ '' description into local manifest cache: '') (Some err)), w2)
           | (Panic p, w2) \<Rightarrow> (Panic p, w2)
           | (Ok _, w2) \<Rightarrow> (Ok (Some stageDesc), w2))
      | (Ok None, w1) \<Rightarrow>
          (if AllowStagesStorageCacheReset opts
           then (Err ErrShouldResetStagesStorageCache, w1)
           else (Ok None, w1)))"

definition getStageDescription ::
  "('w, 'img) Env \<Rightarrow> string \<Rightarrow> StageID \<Rightarrow> ('w, 'img) StagesStorage
   \<Rightarrow> ('w, 'img) StagesStorage list \<Rightarrow> getStageDescriptionOptions \<Rightarrow> 'w
   \<Rightarrow> StageDescription option res \<times> 'w" where
  "getStageDescription env projectName stageID stagesStorage cacheStagesStorageList opts w =
     (case getStageDescriptionFromCaches env projectName stageID stagesStorage
             cacheStagesStorageList opts w of
        (Ok None, w1) \<Rightarrow>
          getStageDescriptionFromStagesStorage env projectName stageID stagesStorage opts w1
      | (r, w1) \<Rightarrow> (r, w1))"

subsection \<open>The fetch pipeline\<close>

text \<open>Results of the methods of the manager that change the manager itself.\<close>

type_synonym ('a, 'w, 'img) mres = "'a res \<times> ('w, 'img) StorageManager \<times> 'w"

definition LockStageImage ::
  "('w, 'img) Env \<Rightarrow> ('w, 'img) StorageManager \<Rightarrow> string \<Rightarrow> 'w \<Rightarrow> (unit, 'w, 'img) mres" where
  "LockStageImage env m imageName w =
     (let imageLockName = ImageLockName env imageName
      in case AcquireHostLock env imageLockName w of
           (Err err, w1) \<Rightarrow>
             (Err (Errorf (''error locking '' @ Quote env imageLockName @ '' shared lock: '')
                     (Some err)), m, w1)
         | (Panic p, w1) \<Rightarrow> (Panic p, m, w1)
         | (Ok lock, w1) \<Rightarrow>
             (Ok (), m\<lparr> SharedHostImagesLocks := SharedHostImagesLocks m @ [lock] \<rparr>, w1))"

definition doFetchStage ::
  "('w, 'img) Env \<Rightarrow> string \<Rightarrow> ('w, 'img) StagesStorage \<Rightarrow> StageID \<Rightarrow> 'img \<Rightarrow> 'w
   \<Rightarrow> unit res \<times> 'w" where
  "doFetchStage env projectName stagesStorage stageID dockerImage w =
     (case GetStageDescription stagesStorage projectName (Digest stageID) (UniqueID stageID) w of
        (Err err, w1) \<Rightarrow> (Err (Errorf ''unable to get stage description: '' (Some err)), w1)
      | (Panic p, w1) \<Rightarrow> (Panic p, w1)
      | (Ok None, w1) \<Rightarrow> (Err ErrStageNotFound, w1)
      | (Ok (Some freshStageDescription), w1) \<Rightarrow>
          checked (FetchImage stagesStorage dockerImage)
            (\<lambda>w err. Errorf (''unable to fetch stage '' @ StageID_String env stageID @ '' image ''
                             @ Image_Name env dockerImage w @ '': '') (Some err))
            (\<lambda>_ w3. (Ok (), w3))
            (Image_SetStageDescription env dockerImage freshStageDescription w1))"

definition copyStageIntoStagesStorage ::
  "('w, 'img) Env \<Rightarrow> string \<Rightarrow> StageID \<Rightarrow> 'img \<Rightarrow> ('w, 'img) StagesStorage
   \<Rightarrow> ('w, 'img) ContainerRuntime \<Rightarrow> 'w \<Rightarrow> unit res \<times> 'w" where
  "copyStageIntoStagesStorage env projectName stageID dockerImage stagesStorage containerRuntime =
     (let targetStagesStorageImageName =
            ConstructStageImageName stagesStorage projectName (Digest stageID) (UniqueID stageID)
      in checked (RenameImage containerRuntime dockerImage targetStagesStorageImageName False)
           (\<lambda>w err. Errorf (''unable to rename image '' @ Image_Name env dockerImage w @ '' to ''
                            @ targetStagesStorageImageName @ '': '') (Some err))
        (\<lambda>_. checked (StoreImage stagesStorage dockerImage)
           (\<lambda>w err. Errorf (''unable to store stage '' @ StageID_String env stageID
                            @ '' into the cache stages storage '' @ String stagesStorage @ '': '')
                       (Some err))
        (\<lambda>_ w2.
           (case Image_GetStageDescription env dockerImage w2 of
              None \<Rightarrow> (Panic NilPointerDereference, w2)
            | Some sd \<Rightarrow>
                checked (storeStageDescriptionIntoLocalManifestCache env projectName stageID
                           stagesStorage
                           (Some (convertStageDescriptionForStagesStorage sd stagesStorage)))
                  (\<lambda>w err. Errorf (''error storing stage '' @ targetStagesStorageImageName
                                   @ '' description into local manifest cache: '') (Some err))
                (\<lambda>_. checked (AccessImage env targetStagesStorageImageName)
                  (\<lambda>w err. Errorf (''error accessing last recently used images cache for ''
                                   @ targetStagesStorageImageName @ '': '') (Some err))
                (\<lambda>_ w4. (Ok (), w4))) w2))))"

text \<open>
  The closure \<^verbatim>\<open>fetchStageFromCache\<close> of \<^verbatim>\<open>FetchStage\<close>. A stage ID read through the
  image of the stage is the value at the time of reading; an image without a description
  makes the read panic.
\<close>

definition fetchStageFromCache ::
  "('w, 'img) Env \<Rightarrow> ('w, 'img) StorageManager \<Rightarrow> ('w, 'img) ContainerRuntime
   \<Rightarrow> ('w, 'img, 'c) Stage \<Rightarrow> ('w, 'img) StagesStorage \<Rightarrow> 'w \<Rightarrow> 'img res \<times> 'w" where
  "fetchStageFromCache env m containerRuntime stg stagesStorage w =
     (case Image_GetStageDescription env (GetImage stg) w of
        None \<Rightarrow> (Panic NilPointerDereference, w)
      | Some sd \<Rightarrow>
          (let stageID = StageID sd;
               imageName = ConstructStageImageName stagesStorage (ProjectName m) (Digest stageID)
                             (UniqueID stageID)
           in if \<not> IsLocalDockerServerRuntime containerRuntime
              then (Panic FailedTypeAssertion, w)
              else
                (case NewStageImage env imageName w of (dockerImage, w1) \<Rightarrow>
                   checked (ShouldFetchImage stagesStorage dockerImage)
                     (\<lambda>w err. Errorf (''error checking should fetch image from cache repo ''
                                      @ String stagesStorage @ '': '') (Some err))
                     (\<lambda>shouldFetch w2.
                        (case (if shouldFetch then
                                 (case doFetchStage env (ProjectName m) stagesStorage stageID
                                         dockerImage w2 of
                                    (Err err, w3) \<Rightarrow>
                                      (if IsStageNotFound (ErrBrokenImageText env) (Some err)
                                       then (Err err, w3) else (Err err, w3))
                                  | (Panic p, w3) \<Rightarrow> (Panic p, w3)
                                  | (Ok _, w3) \<Rightarrow>
                                      checked
                                        (storeStageDescriptionIntoLocalManifestCache env
                                           (ProjectName m) stageID stagesStorage
                                           (Image_GetStageDescription env dockerImage w3))
                                        (\<lambda>w err. Errorf (''error storing stage '' @ imageName
                                           @ '' description into local manifest cache: '')
                                           (Some err))
                                        (\<lambda>_ w4. (Ok (), w4)) w3)
                               else (Ok (), w2)) of
                           (Err err, w5) \<Rightarrow> (Err err, w5)
                         | (Panic p, w5) \<Rightarrow> (Panic p, w5)
                         | (Ok _, w5) \<Rightarrow>
                             checked (AccessImage env (Image_Name env dockerImage w5))
                               (\<lambda>w err. Errorf
                                  (''error accessing last recently used images cache for ''
                                   @ Image_Name env dockerImage w @ '': '') (Some err))
                               (\<lambda>_ w6. (Ok dockerImage, w6)) w5))
                     w1)))"

text \<open>
  The closure \<^verbatim>\<open>prepareCacheStageAsPrimary\<close>. When the rename fails the source builds its
  error message from \<^verbatim>\<open>fetchedDockerImage.Image.Name()\<close>, and \<^verbatim>\<open>fetchedDockerImage\<close> is
  still nil whenever the closure runs: that read panics.
\<close>

definition prepareCacheStageAsPrimary ::
  "('w, 'img) Env \<Rightarrow> ('w, 'img) StorageManager \<Rightarrow> ('w, 'img) ContainerRuntime \<Rightarrow> 'img
   \<Rightarrow> ('w, 'img, 'c) Stage \<Rightarrow> 'w \<Rightarrow> unit res \<times> 'w" where
  "prepareCacheStageAsPrimary env m containerRuntime cacheDockerImage primaryStage w =
     (case Image_GetStageDescription env (GetImage primaryStage) w of
        None \<Rightarrow> (Panic NilPointerDereference, w)
      | Some sd \<Rightarrow>
          (let stageID = StageID sd;
               primaryImageName = ConstructStageImageName (StagesStorage m) (ProjectName m)
                                    (Digest stageID) (UniqueID stageID)
           in case RenameImage containerRuntime cacheDockerImage primaryImageName False w of
                (Err err, w1) \<Rightarrow> (Panic NilPointerDereference, w1)
              | (Panic p, w1) \<Rightarrow> (Panic p, w1)
              | (Ok _, w1) \<Rightarrow>
                  checked (RefreshImageObject containerRuntime (GetImage primaryStage))
                    (\<lambda>w err. Errorf (''unable to refresh stage image ''
                                     @ Image_Name env (GetImage primaryStage) w @ '': '')
                                (Some err))
                    (\<lambda>_ w2.
                       (case Image_GetStageDescription env cacheDockerImage w2 of
                          None \<Rightarrow> (Panic NilPointerDereference, w2)
                        | Some csd \<Rightarrow>
                            checked
                              (storeStageDescriptionIntoLocalManifestCache env (ProjectName m)
                                 stageID (StagesStorage m)
                                 (Some (convertStageDescriptionForStagesStorage csd
                                          (StagesStorage m))))
                              (\<lambda>w err. Errorf (''error storing stage '' @ primaryImageName
                                 @ '' description into local manifest cache: '') (Some err))
                            (\<lambda>_. checked (AccessImage env primaryImageName)
                              (\<lambda>w err. Errorf
                                 (''error accessing last recently used images cache for ''
                                  @ primaryImageName @ '': '') (Some err))
                            (\<lambda>_ w4. (Ok (), w4))) w2))
                    w1))"

text \<open>
  The loop of \<^verbatim>\<open>FetchStage\<close> over the cache tiers: the image fetched from the first tier
  that serves it (or none), and the tiers to refill. A failed tier is only logged; the
  warning formats the stage ID read through the image of the stage.
\<close>

fun fetchFromCacheTiers ::
  "('w, 'img) Env \<Rightarrow> ('w, 'img) StorageManager \<Rightarrow> ('w, 'img) ContainerRuntime
   \<Rightarrow> ('w, 'img, 'c) Stage \<Rightarrow> ('w, 'img) StagesStorage list \<Rightarrow> ('w, 'img) StagesStorage list
   \<Rightarrow> 'w \<Rightarrow> ('img option \<times> ('w, 'img) StagesStorage list) res \<times> 'w" where
  "fetchFromCacheTiers env m containerRuntime stg [] refill w = (Ok (None, refill), w)"
| "fetchFromCacheTiers env m containerRuntime stg (cacheStagesStorage # rest) refill w =
     (case fetchStageFromCache env m containerRuntime stg cacheStagesStorage w of
        (Panic p, w1) \<Rightarrow> (Panic p, w1)
      | (Err err, w1) \<Rightarrow>
          (if \<not> IsStageNotFound (ErrBrokenImageText env) (Some err)
              \<and> Image_GetStageDescription env (GetImage stg) w1 = None
           then (Panic NilPointerDereference, w1)
           else fetchFromCacheTiers env m containerRuntime stg rest
                  (refill @ [cacheStagesStorage]) w1)
      | (Ok cacheDockerImage, w1) \<Rightarrow>
          (case prepareCacheStageAsPrimary env m containerRuntime cacheDockerImage stg w1 of
             (Panic p, w2) \<Rightarrow> (Panic p, w2)
           | (Err err, w2) \<Rightarrow>
               fetchFromCacheTiers env m containerRuntime stg rest
                 (refill @ [cacheStagesStorage]) w2
           | (Ok _, w2) \<Rightarrow> (Ok (Some cacheDockerImage, refill), w2)))"

text \<open>The block of \<^verbatim>\<open>FetchStage\<close> under \<^verbatim>\<open>if fetchedDockerImage == nil\<close>: the primary tier.\<close>

definition fetchFromPrimary ::
  "('w, 'img) Env \<Rightarrow> ('w, 'img) StorageManager \<Rightarrow> ('w, 'img, 'c) Stage \<Rightarrow> 'w
   \<Rightarrow> 'img res \<times> 'w" where
  "fetchFromPrimary env m stg w =
     (case Image_GetStageDescription env (GetImage stg) w of
        None \<Rightarrow> (Panic NilPointerDereference, w)
      | Some sd \<Rightarrow>
          (let stageID = StageID sd; dockerImage = GetImage stg
           in case doFetchStage env (ProjectName m) (StagesStorage m) stageID dockerImage w of
                (Panic p, w1) \<Rightarrow> (Panic p, w1)
              | (Ok _, w1) \<Rightarrow> (Ok dockerImage, w1)
              | (Err err, w1) \<Rightarrow>
                  (if err = ErrStageNotFound then (Err ErrShouldResetStagesStorageCache, w1)
                   else if err = ErrBrokenImage then
                     checked
                       (RejectStage (StagesStorage m) (ProjectName m) (Digest stageID)
                          (UniqueID stageID))
                       (\<lambda>w err. Errorf (''unable to reject stage '' @ LogDetailedName stg
                          @ '' image '' @ Image_Name env (GetImage stg) w
                          @ '' in the stages storage '' @ String (StagesStorage m) @ '': '')
                          (Some err))
                       (\<lambda>_ w2. (Err ErrShouldResetStagesStorageCache, w2)) w1
                   else
                     (Err (Errorf (''unable to fetch stage '' @ StageID_String env stageID
                                   @ '' from stages storage '' @ String (StagesStorage m)
                                   @ '': '') (Some err)), w1))))"

text \<open>The last loop of \<^verbatim>\<open>FetchStage\<close>: the tiers to refill; a failed copy is a warning.\<close>

fun refillCacheTiers ::
  "('w, 'img) Env \<Rightarrow> ('w, 'img) StorageManager \<Rightarrow> ('w, 'img) ContainerRuntime
   \<Rightarrow> ('w, 'img, 'c) Stage \<Rightarrow> 'img \<Rightarrow> ('w, 'img) StagesStorage list \<Rightarrow> 'w \<Rightarrow> unit res \<times> 'w" where
  "refillCacheTiers env m containerRuntime stg fetchedDockerImage [] w = (Ok (), w)"
| "refillCacheTiers env m containerRuntime stg fetchedDockerImage (cacheStagesStorage # rest) w =
     (case Image_GetStageDescription env (GetImage stg) w of
        None \<Rightarrow> (Panic NilPointerDereference, w)
      | Some sd \<Rightarrow>
          (case copyStageIntoStagesStorage env (ProjectName m) (StageID sd) fetchedDockerImage
                  cacheStagesStorage containerRuntime w of
             (Panic p, w1) \<Rightarrow> (Panic p, w1)
           | (_, w1) \<Rightarrow> refillCacheTiers env m containerRuntime stg fetchedDockerImage rest w1))"

text \<open>\<^verbatim>\<open>FetchStage\<close> after the host lock is taken; from here on only the world changes.\<close>

definition fetchStageLocked ::
  "('w, 'img) Env \<Rightarrow> ('w, 'img) StorageManager \<Rightarrow> ('w, 'img) ContainerRuntime
   \<Rightarrow> ('w, 'img, 'c) Stage \<Rightarrow> 'w \<Rightarrow> unit res \<times> 'w" where
  "fetchStageLocked env m containerRuntime stg =
     checked (ShouldFetchImage (StagesStorage m) (GetImage stg))
       (\<lambda>w err. Errorf ''error checking should fetch image: '' (Some err))
       (\<lambda>shouldFetch w1.
          if \<not> shouldFetch then
            (case Image_GetStageDescription env (GetImage stg) w1 of
               None \<Rightarrow> (Panic NilPointerDereference, w1)
             | Some sd \<Rightarrow>
                 (let imageName = ConstructStageImageName (StagesStorage m) (ProjectName m)
                                    (Digest (StageID sd)) (UniqueID (StageID sd))
                  in checked (AccessImage env imageName)
                       (\<lambda>w err. Errorf (''error accessing last recently used images cache for ''
                                        @ imageName @ '': '') (Some err))
                       (\<lambda>_ w2. (Ok (), w2)) w1))
          else
            (case fetchFromCacheTiers env m containerRuntime stg (CacheStagesStorageList m) []
                    w1 of
               (Panic p, w2) \<Rightarrow> (Panic p, w2)
             | (Err err, w2) \<Rightarrow> (Err err, w2)
             | (Ok (fetched, refill), w2) \<Rightarrow>
                 (case (case fetched of
                          Some cacheDockerImage \<Rightarrow> (Ok cacheDockerImage, w2)
                        | None \<Rightarrow> fetchFromPrimary env m stg w2) of
                    (Panic p, w3) \<Rightarrow> (Panic p, w3)
                  | (Err err, w3) \<Rightarrow> (Err err, w3)
                  | (Ok fetchedDockerImage, w3) \<Rightarrow>
                      refillCacheTiers env m containerRuntime stg fetchedDockerImage refill w3)))"

definition FetchStage ::
  "('w, 'img) Env \<Rightarrow> ('w, 'img) StorageManager \<Rightarrow> ('w, 'img) ContainerRuntime
   \<Rightarrow> ('w, 'img, 'c) Stage \<Rightarrow> 'w \<Rightarrow> (unit, 'w, 'img) mres" where
  "FetchStage env m containerRuntime stg w =
     (case LockStageImage env m (Image_Name env (GetImage stg) w) w of
        (Err err, m1, w1) \<Rightarrow>
          (Err (Errorf (''error locking stage image ''
                        @ Quote env (Image_Name env (GetImage stg) w1) @ '': '') (Some err)),
           m1, w1)
      | (Panic p, m1, w1) \<Rightarrow> (Panic p, m1, w1)
      | (Ok _, m1, w1) \<Rightarrow>
          (case fetchStageLocked env m1 containerRuntime stg w1 of (r, w2) \<Rightarrow> (r, m1, w2)))"

subsection \<open>The final-tier replicator\<close>

text \<open>A method called on a final tier that is not configured (nil) panics.\<close>

definition getOrCreateFinalStagesListCache ::
  "('w, 'img) Env \<Rightarrow> ('w, 'img) StorageManager \<Rightarrow> 'w \<Rightarrow> (StagesList, 'w, 'img) mres" where
  "getOrCreateFinalStagesListCache env m w =
     (case FinalStagesListCache m of
        Some cache \<Rightarrow> (Ok cache, m, w)
      | None \<Rightarrow>
          (case FinalStagesStorage m of
             None \<Rightarrow> (Panic NilPointerDereference, m, w)
           | Some finalStagesStorage \<Rightarrow>
               (case GetStagesIDs finalStagesStorage (ProjectName m) w of
                  (Err err, w1) \<Rightarrow>
                    (Err (Errorf ''unable to get final repo stages list: '' (Some err)), m, w1)
                | (Panic p, w1) \<Rightarrow> (Panic p, m, w1)
                | (Ok stageIDs, w1) \<Rightarrow>
                    (Ok (NewStagesList stageIDs),
                     m\<lparr> FinalStagesListCache := Some (NewStagesList stageIDs) \<rparr>, w1))))"

text \<open>
  \<^verbatim>\<open>CopyStageIntoFinalRepo\<close>. The list object that \<^verbatim>\<open>AddStageID\<close> changes at the end is the
  one the manager holds in \<^verbatim>\<open>FinalStagesListCache\<close>.
\<close>

definition CopyStageIntoFinalRepo ::
  "('w, 'img) Env \<Rightarrow> ('w, 'img) StorageManager \<Rightarrow> ('w, 'img, 'c) Stage
   \<Rightarrow> ('w, 'img) ContainerRuntime \<Rightarrow> 'w \<Rightarrow> (unit, 'w, 'img) mres" where
  "CopyStageIntoFinalRepo env m stg containerRuntime w =
     (case getOrCreateFinalStagesListCache env m w of
        (Err err, m1, w1) \<Rightarrow>
          (case FinalStagesStorage m1 of
             None \<Rightarrow> (Panic NilPointerDereference, m1, w1)
           | Some finalStagesStorage \<Rightarrow>
               (Err (Errorf (''error getting existing stages list of final repo ''
                             @ String finalStagesStorage @ '': '') (Some err)), m1, w1))
      | (Panic p, m1, w1) \<Rightarrow> (Panic p, m1, w1)
      | (Ok existingStagesListCache, m1, w1) \<Rightarrow>
          (case Image_GetStageDescription env (GetImage stg) w1 of
             None \<Rightarrow> (Panic NilPointerDereference, m1, w1)
           | Some sd \<Rightarrow>
               (case FinalStagesStorage m1 of
                  None \<Rightarrow> (Panic NilPointerDereference, m1, w1)
                | Some finalStagesStorage \<Rightarrow>
                    (let stageID = StageID sd
                     in if list_ex (\<lambda>existingStg. IsEqual existingStg stageID)
                             (GetStageIDs existingStagesListCache)
                        then (Ok (), m1, w1)
                        else
                          (case FetchStage env m1 containerRuntime stg w1 of
                             (Err err, m2, w2) \<Rightarrow>
                               (Err (Errorf (''unable to fetch stage '' @ LogDetailedName stg
                                             @ '': '') (Some err)), m2, w2)
                           | (Panic p, m2, w2) \<Rightarrow> (Panic p, m2, w2)
                           | (Ok _, m2, w2) \<Rightarrow>
                               (case copyStageIntoStagesStorage env (ProjectName m2) stageID
                                       (GetImage stg) finalStagesStorage containerRuntime w2 of
                                  (Err err, w3) \<Rightarrow>
                                    (Err (Errorf (''unable to copy stage ''
                                            @ StageID_String env stageID
                                            @ '' into the final repo ''
                                            @ String finalStagesStorage @ '': '') (Some err)),
                                     m2, w3)
                                | (Panic p, w3) \<Rightarrow> (Panic p, m2, w3)
                                | (Ok _, w3) \<Rightarrow>
                                    (Ok (),
                                     m2\<lparr> FinalStagesListCache :=
                                           map_option (AddStageID stageID)
                                             (FinalStagesListCache m2) \<rparr>,
                                     w3)))))))"

subsection \<open>The digest index\<close>

definition getWithLocalManifestCacheOption ::
  "('w, 'img) Env \<Rightarrow> ('w, 'img) StorageManager \<Rightarrow> bool" where
  "getWithLocalManifestCacheOption env m \<longleftrightarrow>
     Address (StagesStorage m) \<noteq> LocalStorageAddress env"

text \<open>
  The loop of \<^verbatim>\<open>getStagesByDigestFromCache\<close>: every description is appended as it comes
  (a pointer, kept as an option).
\<close>

fun cachedStagesDescriptions ::
  "('w, 'img) Env \<Rightarrow> ('w, 'img) StorageManager \<Rightarrow> StageID list \<Rightarrow> StageDescription option list
   \<Rightarrow> 'w \<Rightarrow> StageDescription option list res \<times> 'w" where
  "cachedStagesDescriptions env m [] stages w = (Ok stages, w)"
| "cachedStagesDescriptions env m (stageID # rest) stages w =
     (case getStageDescription env (ProjectName m) stageID (StagesStorage m)
             (CacheStagesStorageList m)
             \<lparr> AllowStagesStorageCacheReset = True,
               WithLocalManifestCache = getWithLocalManifestCacheOption env m \<rparr> w of
        (Err err, w1) \<Rightarrow>
          (Err (Errorf (''unable to get stage '' @ Quote env (StageID_String env stageID)
                        @ '' description: '') (Some err)), w1)
      | (Panic p, w1) \<Rightarrow> (Panic p, w1)
      | (Ok stageDesc, w1) \<Rightarrow> cachedStagesDescriptions env m rest (stages @ [stageDesc]) w1)"

text \<open>
  \<^verbatim>\<open>getStagesByDigestFromCache\<close> returns (cacheExists, stages, err). An error of the index
  cache does not stop it: the loop still runs over the IDs that came with the error.
\<close>

definition getStagesByDigestFromCache ::
  "('w, 'img) Env \<Rightarrow> ('w, 'img) StorageManager \<Rightarrow> string \<Rightarrow> string \<Rightarrow> 'w
   \<Rightarrow> (bool \<times> StageDescription option list \<times> error option) res \<times> 'w" where
  "getStagesByDigestFromCache env m stageName stageDigest w =
     (case Cache_GetStagesByDigest (StagesStorageCache m) (ProjectName m) stageDigest w of
        ((cacheExists, cacheStagesIDs, cacheErr), w1) \<Rightarrow>
          (let err = map_option
                       (\<lambda>e. Errorf (''error getting project '' @ ProjectName m @ '' stage ''
                                     @ stageDigest @ '' images from storage cache: '') (Some e))
                       cacheErr
           in case cachedStagesDescriptions env m cacheStagesIDs [] w1 of
                (Err e, w2) \<Rightarrow> (Ok (False, [], Some e), w2)
              | (Panic p, w2) \<Rightarrow> (Panic p, w2)
              | (Ok stages, w2) \<Rightarrow> (Ok (cacheExists, stages, err), w2)))"

definition getStagesIDsByDigestFromStagesStorage ::
  "('w, 'img) Env \<Rightarrow> ('w, 'img) StorageManager \<Rightarrow> string \<Rightarrow> string \<Rightarrow> ('w, 'img) StagesStorage
   \<Rightarrow> 'w \<Rightarrow> StageID list res \<times> 'w" where
  "getStagesIDsByDigestFromStagesStorage env m stageName stageDigest stagesStorage =
     checked (GetStagesIDsByDigest stagesStorage (ProjectName m) stageDigest)
       (\<lambda>w err. Errorf (''error getting project '' @ String (StagesStorage m) @ '' stage ''
                        @ stageDigest @ '' images from storage: '') (Some err))
       (\<lambda>stageIDs w1. (Ok stageIDs, w1))"

text \<open>The loop of \<^verbatim>\<open>getStagesDescriptions\<close>: an absent description is skipped with a
  warning, an error ends the loop.\<close>

fun getStagesDescriptionsLoop ::
  "('w, 'img) Env \<Rightarrow> ('w, 'img) StorageManager \<Rightarrow> ('w, 'img) StagesStorage
   \<Rightarrow> ('w, 'img) StagesStorage list \<Rightarrow> StageID list \<Rightarrow> StageDescription list \<Rightarrow> 'w
   \<Rightarrow> StageDescription list res \<times> 'w" where
  "getStagesDescriptionsLoop env m stagesStorage cacheStagesStorageList [] stages w =
     (Ok stages, w)"
| "getStagesDescriptionsLoop env m stagesStorage cacheStagesStorageList (stageID # rest) stages w =
     (case getStageDescription env (ProjectName m) stageID stagesStorage cacheStagesStorageList
             \<lparr> AllowStagesStorageCacheReset = False,
               WithLocalManifestCache = getWithLocalManifestCacheOption env m \<rparr> w of
        (Err err, w1) \<Rightarrow> (Err err, w1)
      | (Panic p, w1) \<Rightarrow> (Panic p, w1)
      | (Ok None, w1) \<Rightarrow>
          getStagesDescriptionsLoop env m stagesStorage cacheStagesStorageList rest stages w1
      | (Ok (Some stageDesc), w1) \<Rightarrow>
          getStagesDescriptionsLoop env m stagesStorage cacheStagesStorageList rest
            (stages @ [stageDesc]) w1)"

definition getStagesDescriptions ::
  "('w, 'img) Env \<Rightarrow> ('w, 'img) StorageManager \<Rightarrow> StageID list \<Rightarrow> ('w, 'img) StagesStorage
   \<Rightarrow> ('w, 'img) StagesStorage list \<Rightarrow> 'w \<Rightarrow> StageDescription list res \<times> 'w" where
  "getStagesDescriptions env m stageIDs stagesStorage cacheStagesStorageList =
     getStagesDescriptionsLoop env m stagesStorage cacheStagesStorageList stageIDs []"

text \<open>\<^verbatim>\<open>atomicGetStagesByDigestWithStagesStorageCacheStore\<close> once the lock is held.\<close>

definition refreshStagesByDigest ::
  "('w, 'img) Env \<Rightarrow> ('w, 'img) StorageManager \<Rightarrow> string \<Rightarrow> string \<Rightarrow> 'w
   \<Rightarrow> StageDescription option list res \<times> 'w" where
  "refreshStagesByDigest env m stageName stageDigest =
     checked (getStagesIDsByDigestFromStagesStorage env m stageName stageDigest (StagesStorage m))
       (\<lambda>w err. Errorf (''unable to get stages ids from '' @ String (StagesStorage m)
                        @ '' by digest '' @ stageDigest @ '' for stage '' @ stageName @ '': '')
                   (Some err))
     (\<lambda>stageIDs.
     checked (getStagesDescriptions env m stageIDs (StagesStorage m) (CacheStagesStorageList m))
       (\<lambda>w err. Errorf (''unable to get stage descriptions by ids from ''
                        @ String (StagesStorage m) @ '': '') (Some err))
     (\<lambda>validStages.
     (let validStageIDs = map StageID validStages
      in checked (Cache_StoreStagesByDigest (StagesStorageCache m) (ProjectName m) stageDigest
                    validStageIDs)
           (\<lambda>w err. Errorf (''error storing stage '' @ stageName @ '' images by digest ''
                            @ stageDigest @ '' into storage cache: '') (Some err))
           (\<lambda>_ w3. (Ok (map Some validStages), w3)))))"

definition atomicGetStagesByDigestWithStagesStorageCacheStore ::
  "('w, 'img) Env \<Rightarrow> ('w, 'img) StorageManager \<Rightarrow> string \<Rightarrow> string \<Rightarrow> 'w
   \<Rightarrow> StageDescription option list res \<times> 'w" where
  "atomicGetStagesByDigestWithStagesStorageCacheStore env m stageName stageDigest w =
     (case LockStageCache (StorageLockManager m) (ProjectName m) stageDigest w of
        (Err err, w1) \<Rightarrow>
          (Err (Errorf (''error locking project '' @ ProjectName m @ '' stage '' @ stageDigest
                        @ '' cache: '') (Some err)), w1)
      | (Panic p, w1) \<Rightarrow> (Panic p, w1)
      | (Ok lock, w1) \<Rightarrow>
          deferred (Unlock (StorageLockManager m) lock)
            (refreshStagesByDigest env m stageName stageDigest w1))"

definition GetStagesByDigest ::
  "('w, 'img) Env \<Rightarrow> ('w, 'img) StorageManager \<Rightarrow> string \<Rightarrow> string \<Rightarrow> 'w
   \<Rightarrow> StageDescription option list res \<times> 'w" where
  "GetStagesByDigest env m stageName stageDigest w =
     (case getStagesByDigestFromCache env m stageName stageDigest w of
        (Panic p, w1) \<Rightarrow> (Panic p, w1)
      | (Err err, w1) \<Rightarrow> (Err err, w1)
      | (Ok (cacheExists, cacheStages, Some err), w1) \<Rightarrow>
          (Err (Errorf (''unable to get '' @ stageName @ '' stages by digest ''
                        @ Quote env stageDigest @ '' from cache: '') (Some err)), w1)
      | (Ok (cacheExists, cacheStages, None), w1) \<Rightarrow>
          (if cacheExists then (Ok cacheStages, w1)
           else atomicGetStagesByDigestWithStagesStorageCacheStore env m stageName stageDigest w1))"

section \<open>The helm maintenance helper\<close>

text \<open>
  \<^verbatim>\<open>MaintenanceHelper\<close> of package \<^verbatim>\<open>maintenance_helper\<close>. The helm libraries are outside
  the repository and enter as follows. A helm 2 release record has a name and a revision
  (\<^verbatim>\<open>Version\<close>, an \<^verbatim>\<open>int32\<close>); a helm 3 release has a name. A helm 2 storage is its driver,
  over config maps or over secrets of a namespace. \<open>Driver_List\<close> reads the records a driver
  holds; the library's \<^verbatim>\<open>ListFilterAll\<close> returns those records that pass the filter, and
  \<^verbatim>\<open>ListReleases\<close> all of them. \<^verbatim>\<open>releaseutil.SortByRevision\<close> is the parameter
  \<open>SortByRevision\<close>, and \<^verbatim>\<open>releaseutil.Reverse(list, sortFn)\<close> sorts with \<open>sortFn\<close> and then
  reverses the list.
\<close>

type_synonym int32 = "32 word"

record v2_Release =
  Release_Name :: string
  Release_Namespace :: string
  Release_Version :: int32
  Release_Manifest :: string

record v3_Release =
  Release3_Name :: string

datatype v2_Driver = ConfigMaps string | Secrets string

record 'w v3_Configuration =
  Releases_ListReleases :: "'w \<Rightarrow> v3_Release list res \<times> 'w"

record 'w HelmLibrary =
  Driver_List :: "v2_Driver \<Rightarrow> 'w \<Rightarrow> v2_Release list res \<times> 'w"
  SortByRevision :: "v2_Release list \<Rightarrow> v2_Release list"
  Helm_Quote :: "string \<Rightarrow> string"

definition ListFilterAll ::
  "'w HelmLibrary \<Rightarrow> v2_Driver \<Rightarrow> (v2_Release \<Rightarrow> bool) \<Rightarrow> 'w \<Rightarrow> v2_Release list res \<times> 'w" where
  "ListFilterAll lib storage fn w =
     (case Driver_List lib storage w of
        (Ok rels, w1) \<Rightarrow> (Ok (filter fn rels), w1)
      | (r, w1) \<Rightarrow> (r, w1))"

definition ListReleases ::
  "'w HelmLibrary \<Rightarrow> v2_Driver \<Rightarrow> 'w \<Rightarrow> v2_Release list res \<times> 'w" where
  "ListReleases lib storage = ListFilterAll lib storage (\<lambda>_. True)"

definition Reverse ::
  "v2_Release list \<Rightarrow> (v2_Release list \<Rightarrow> v2_Release list) \<Rightarrow> v2_Release list" where
  "Reverse lst sortFn = rev (sortFn lst)"

record Helm2ReleaseData =
  Release :: v2_Release

record 'w MaintenanceHelper =
  Helm2ReleaseStorageNamespace :: string
  Helm2ReleaseStorageType :: string
  v2Storage :: "v2_Driver option"
  v3ActionConfig :: "'w v3_Configuration"

definition initHelm2Storage ::
  "'w HelmLibrary \<Rightarrow> 'w MaintenanceHelper \<Rightarrow> v2_Driver res \<times> 'w MaintenanceHelper" where
  "initHelm2Storage lib helper =
     (case v2Storage helper of
        Some storage \<Rightarrow> (Ok storage, helper)
      | None \<Rightarrow>
          (if Helm2ReleaseStorageType helper = ''configmap'' then
             (Ok (ConfigMaps (Helm2ReleaseStorageNamespace helper)),
              helper\<lparr> v2Storage := Some (ConfigMaps (Helm2ReleaseStorageNamespace helper)) \<rparr>)
           else if Helm2ReleaseStorageType helper = ''secret'' then
             (Ok (Secrets (Helm2ReleaseStorageNamespace helper)),
              helper\<lparr> v2Storage := Some (Secrets (Helm2ReleaseStorageNamespace helper)) \<rparr>)
           else
             (Err (Errorf (''unknown helm 2 release v2Storage type ''
                           @ Helm_Quote lib (Helm2ReleaseStorageType helper)) None), helper)))"

text \<open>
  The loop labelled \<^verbatim>\<open>AppendUniqReleases\<close>, which both listing functions contain: a
  release whose name is already in \<open>res\<close> is passed over, any other name is appended.
  \<open>name_of\<close> reads \<^verbatim>\<open>rel.Name\<close>.
\<close>

fun AppendUniqReleases :: "('r \<Rightarrow> string) \<Rightarrow> 'r list \<Rightarrow> string list \<Rightarrow> string list" where
  "AppendUniqReleases name_of [] res = res"
| "AppendUniqReleases name_of (rel # releases) res =
     (if list_ex (\<lambda>name. name = name_of rel) res
      then AppendUniqReleases name_of releases res
      else AppendUniqReleases name_of releases (res @ [name_of rel]))"

definition GetHelm3ReleasesList ::
  "'w MaintenanceHelper \<Rightarrow> 'w \<Rightarrow> string list res \<times> 'w" where
  "GetHelm3ReleasesList helper w =
     (case Releases_ListReleases (v3ActionConfig helper) w of
        (Err err, w1) \<Rightarrow> (Err err, w1)
      | (Panic p, w1) \<Rightarrow> (Panic p, w1)
      | (Ok releases, w1) \<Rightarrow> (Ok (AppendUniqReleases Release3_Name releases []), w1))"

definition GetHelm2ReleasesList ::
  "'w HelmLibrary \<Rightarrow> 'w MaintenanceHelper \<Rightarrow> 'w
   \<Rightarrow> string list res \<times> 'w MaintenanceHelper \<times> 'w" where
  "GetHelm2ReleasesList lib helper w =
     (case initHelm2Storage lib helper of
        (Err err, helper1) \<Rightarrow> (Err err, helper1, w)
      | (Panic p, helper1) \<Rightarrow> (Panic p, helper1, w)
      | (Ok storage, helper1) \<Rightarrow>
          (case ListReleases lib storage w of
             (Err err, w1) \<Rightarrow> (Err err, helper1, w1)
           | (Panic p, w1) \<Rightarrow> (Panic p, helper1, w1)
           | (Ok releases, w1) \<Rightarrow>
               (Ok (AppendUniqReleases Release_Name releases []), helper1, w1)))"

text \<open>\<^verbatim>\<open>GetHelm2ReleaseData\<close>; \<^verbatim>\<open>releases[0]\<close> on an empty list would panic.\<close>

definition GetHelm2ReleaseData ::
  "'w HelmLibrary \<Rightarrow> 'w MaintenanceHelper \<Rightarrow> string \<Rightarrow> 'w
   \<Rightarrow> Helm2ReleaseData res \<times> 'w MaintenanceHelper \<times> 'w" where
  "GetHelm2ReleaseData lib helper releaseName w =
     (case initHelm2Storage lib helper of
        (Err err, helper1) \<Rightarrow> (Err err, helper1, w)
      | (Panic p, helper1) \<Rightarrow> (Panic p, helper1, w)
      | (Ok storage, helper1) \<Rightarrow>
          (case ListFilterAll lib storage (\<lambda>rel. Release_Name rel = releaseName) w of
             (Err err, w1) \<Rightarrow> (Err err, helper1, w1)
           | (Panic p, w1) \<Rightarrow> (Panic p, helper1, w1)
           | (Ok releases, w1) \<Rightarrow>
               (if length releases = 0
                then (Err (Errorf ''release not found'' None), helper1, w1)
                else
                  (case Reverse releases (SortByRevision lib) of
                     [] \<Rightarrow> (Panic IndexOutOfRange, helper1, w1)
                   | r # _ \<Rightarrow> (Ok \<lparr> Release = r \<rparr>, helper1, w1)))))"

section \<open>Specification-side definitions\<close>

text \<open>
  The names of a list in order of first occurrence, as the claim about the release lists
  words it: a name stays where it first occurs and its later occurrences are dropped.
\<close>

fun firstOccurrences :: "'a list \<Rightarrow> 'a list" where
  "firstOccurrences [] = []"
| "firstOccurrences (x # xs) = x # firstOccurrences (filter (\<lambda>y. y \<noteq> x) xs)"

text \<open>
  The refresh of the digest index as the specification words it: "resolve each" stage ID
  in turn (an error ends the refresh), "collect those that resolve successfully".
  \<open>resolveEach\<close> pairs every listed ID with what its resolution found.
\<close>

fun resolveEach ::
  "('w, 'img) Env \<Rightarrow> ('w, 'img) StorageManager \<Rightarrow> ('w, 'img) StagesStorage
   \<Rightarrow> ('w, 'img) StagesStorage list \<Rightarrow> StageID list \<Rightarrow> 'w
   \<Rightarrow> (StageID \<times> StageDescription option) list res \<times> 'w" where
  "resolveEach env m stagesStorage cacheStagesStorageList [] w = (Ok [], w)"
| "resolveEach env m stagesStorage cacheStagesStorageList (stageID # rest) w =
     (case getStageDescription env (ProjectName m) stageID stagesStorage cacheStagesStorageList
             \<lparr> AllowStagesStorageCacheReset = False,
               WithLocalManifestCache = getWithLocalManifestCacheOption env m \<rparr> w of
        (Ok found, w1) \<Rightarrow>
          (case resolveEach env m stagesStorage cacheStagesStorageList rest w1 of
             (Ok outcomes, w2) \<Rightarrow> (Ok ((stageID, found) # outcomes), w2)
           | (Err err, w2) \<Rightarrow> (Err err, w2)
           | (Panic p, w2) \<Rightarrow> (Panic p, w2))
      | (Err err, w1) \<Rightarrow> (Err err, w1)
      | (Panic p, w1) \<Rightarrow> (Panic p, w1))"

definition resolvedDescriptions ::
  "(StageID \<times> StageDescription option) list \<Rightarrow> StageDescription list" where
  "resolvedDescriptions outcomes = [d. (stageID, Some d) \<leftarrow> outcomes]"

definition resolvedStageIDs :: "(StageID \<times> StageDescription option) list \<Rightarrow> StageID list" where
  "resolvedStageIDs outcomes = [stageID. (stageID, Some d) \<leftarrow> outcomes]"

section \<open>A small world for concrete runs\<close>

text \<open>
  A world that records the calls made on the collaborators, the content of the index
  cache and the stage IDs rejected in a tier; tiers whose answers are given by a lookup
  function; and a helm storage with a few release records. The concrete runs further
  down are evaluated in this world.
\<close>

record World =
  calls :: "string list"
  index :: "(string \<times> StageID list) list"
  rejected :: "StageID list"

definition called :: "string \<Rightarrow> World \<Rightarrow> World" where
  "called c w = w\<lparr> calls := calls w @ [c] \<rparr>"

definition world0 :: World where
  "world0 = \<lparr> calls = [], index = [], rejected = [] \<rparr>"

definition stageA :: StageID where
  "stageA = \<lparr> Digest = ''abc'', UniqueID = 1 \<rparr>"

definition stageB :: StageID where
  "stageB = \<lparr> Digest = ''abc'', UniqueID = 2 \<rparr>"

definition stageC :: StageID where
  "stageC = \<lparr> Digest = ''abc'', UniqueID = 3 \<rparr>"

definition describedIn :: "string \<Rightarrow> StageID \<Rightarrow> StageDescription" where
  "describedIn repo stageID =
     \<lparr> StageID = stageID,
       Info = \<lparr> Name = repo @ '':'' @ Digest stageID, Repository = repo, Tag = Digest stageID,
                RepoDigest = ''sha256:0'', ID = ''sha256:1'', ParentID = ''sha256:2'',
                Labels = Map.empty, Size = 10, CreatedAtUnixNano = 20 \<rparr> \<rparr>"

definition storageTier ::
  "string \<Rightarrow> StageID list \<Rightarrow> (StageID \<Rightarrow> StageDescription option res) \<Rightarrow> unit res
   \<Rightarrow> (World, nat) StagesStorage" where
  "storageTier repo listing lookup rejection =
     \<lparr> String = repo,
       Address = repo,
       ConstructStageImageName = (\<lambda>project digest uniqueID. repo @ '':'' @ digest),
       GetStagesIDs = (\<lambda>project w. (Ok listing, called (repo @ ''.GetStagesIDs'') w)),
       GetStagesIDsByDigest =
         (\<lambda>project digest w.
            (Ok (filter (\<lambda>i. Digest i = digest) listing),
             called (repo @ ''.GetStagesIDsByDigest'') w)),
       GetStageDescription =
         (\<lambda>project digest uniqueID w.
            (lookup \<lparr> Digest = digest, UniqueID = uniqueID \<rparr>,
             called (repo @ ''.GetStageDescription'') w)),
       RejectStage =
         (\<lambda>project digest uniqueID w.
            (rejection,
             called (repo @ ''.RejectStage'')
               (case rejection of
                  Ok _ \<Rightarrow>
                    w\<lparr> rejected := rejected w @ [\<lparr> Digest = digest, UniqueID = uniqueID \<rparr>] \<rparr>
                | _ \<Rightarrow> w))),
       ShouldFetchImage = (\<lambda>img w. (Ok True, called (repo @ ''.ShouldFetchImage'') w)),
       FetchImage = (\<lambda>img w. (Ok (), called (repo @ ''.FetchImage'') w)),
       StoreImage = (\<lambda>img w. (Ok (), called (repo @ ''.StoreImage'') w)) \<rparr>"

definition env0 :: "(World, nat) Env" where
  "env0 =
     \<lparr> ErrBrokenImageText = ''broken image'',
       LocalStorageAddress = '':local'',
       Quote = (\<lambda>s. CHR 0x22 # s @ [CHR 0x22]),
       StageID_String = (\<lambda>i. Digest i),
       ImageLockName = (\<lambda>n. ''image.'' @ n),
       AcquireHostLock =
         (\<lambda>n w. (Ok \<lparr> UUID = ''uuid'', LockName = n \<rparr>, called ''AcquireHostLock'' w)),
       AccessImage = (\<lambda>n w. (Ok (), called ''AccessImage'' w)),
       GetImageInfo = (\<lambda>s n w. (Ok None, called ''GetImageInfo'' w)),
       StoreImageInfo = (\<lambda>s i w. (Ok (), called ''StoreImageInfo'' w)),
       NewStageImage = (\<lambda>n w. (1, called ''NewStageImage'' w)),
       Image_Name = (\<lambda>img w. ''image''),
       Image_GetStageDescription = (\<lambda>img w. Some (describedIn ''primary'' stageA)),
       Image_SetStageDescription = (\<lambda>img d w. called ''SetStageDescription'' w),
       yaml_Marshal = (\<lambda>d. Ok ''yaml''),
       TimeNow =
         (\<lambda>w. (\<lparr> Unix = 1600000000, Nanosecond = 123456789 \<rparr>, called ''time.Now'' w)) \<rparr>"

definition runtime0 :: "(World, nat) ContainerRuntime" where
  "runtime0 =
     \<lparr> IsLocalDockerServerRuntime = True,
       RenameImage = (\<lambda>img n f w. (Ok (), called ''RenameImage'' w)),
       RefreshImageObject = (\<lambda>img w. (Ok (), called ''RefreshImageObject'' w)) \<rparr>"

definition locks0 :: "World LockManager" where
  "locks0 =
     \<lparr> LockStageCache =
         (\<lambda>project digest w.
            (Ok \<lparr> UUID = ''uuid'', LockName = project @ ''.'' @ digest \<rparr>,
             called ''LockStageCache'' w)),
       Unlock = (\<lambda>lock w. (Ok (), called ''Unlock'' w)) \<rparr>"

definition index0 :: "World StagesStorageCache" where
  "index0 =
     \<lparr> Cache_String = ''index'',
       Cache_GetStagesByDigest =
         (\<lambda>project digest w.
            ((case map_of (index w) digest of
                Some ids \<Rightarrow> (True, ids, None)
              | None \<Rightarrow> (False, [], None)),
             called ''GetStagesByDigest'' w)),
       Cache_StoreStagesByDigest =
         (\<lambda>project digest ids w.
            (Ok (), called ''StoreStagesByDigest'' (w\<lparr> index := (digest, ids) # index w \<rparr>))),
       Cache_DeleteAllStages =
         (\<lambda>project w. (Ok (), called ''DeleteAllStages'' (w\<lparr> index := [] \<rparr>))) \<rparr>"

definition managerOf ::
  "(World, nat) StagesStorage \<Rightarrow> (World, nat) StagesStorage option
   \<Rightarrow> (World, nat) StorageManager" where
  "managerOf primary final =
     \<lparr> parallel = False, parallelTasksLimit = 0, ProjectName = ''project'',
       StorageLockManager = locks0, StagesStorageCache = index0,
       StagesStorage = primary, FinalStagesStorage = final,
       CacheStagesStorageList = [], SecondaryStagesStorageList = [],
       SharedHostImagesLocks = [], FinalStagesListCache = None \<rparr>"

definition stage0 :: "(World, nat, unit) Stage" where
  "stage0 =
     \<lparr> GetImage = 0, LogDetailedName = ''stage install'', Stage_Name = ''install'',
       GetDigest = ''abc'',
       Stage_SelectSuitableStage =
         (\<lambda>c stages w.
            (case stages of [] \<Rightarrow> Ok None | d # _ \<Rightarrow> Ok (Some d),
             called ''stage.SelectSuitableStage'' w)) \<rparr>"

text \<open>A primary tier in which stage A is broken, stage B is absent and stage C is
  described.\<close>

definition lookupABC :: "StageID \<Rightarrow> StageDescription option res" where
  "lookupABC i =
     (if i = stageA then Err ErrBrokenImage
      else if i = stageC then Ok (Some (describedIn ''primary'' stageC))
      else Ok None)"

definition primaryABC :: "(World, nat) StagesStorage" where
  "primaryABC = storageTier ''primary'' [stageA, stageB, stageC] lookupABC (Ok ())"

definition primaryRejectFails :: "(World, nat) StagesStorage" where
  "primaryRejectFails =
     storageTier ''primary'' [stageA] lookupABC (Err (Errorf ''registry is read-only'' None))"

definition noReset :: getStageDescriptionOptions where
  "noReset = \<lparr> AllowStagesStorageCacheReset = False, WithLocalManifestCache = False \<rparr>"

definition withReset :: getStageDescriptionOptions where
  "withReset = \<lparr> AllowStagesStorageCacheReset = True, WithLocalManifestCache = False \<rparr>"

text \<open>A primary tier that describes every stage, and a final tier that holds none.\<close>

definition primaryOK :: "(World, nat) StagesStorage" where
  "primaryOK =
     storageTier ''primary'' [stageA] (\<lambda>i. Ok (Some (describedIn ''primary'' i))) (Ok ())"

definition finalEmpty :: "(World, nat) StagesStorage" where
  "finalEmpty = storageTier ''final'' [] (\<lambda>i. Ok None) (Ok ())"

definition releases0 :: "v2_Release list" where
  "releases0 =
     [\<lparr> Release_Name = ''web'', Release_Namespace = ''default'', Release_Version = 1,
         Release_Manifest = [] \<rparr>,
      \<lparr> Release_Name = ''db'', Release_Namespace = ''default'', Release_Version = 1,
         Release_Manifest = [] \<rparr>,
      \<lparr> Release_Name = ''web'', Release_Namespace = ''default'', Release_Version = 3,
         Release_Manifest = [] \<rparr>,
      \<lparr> Release_Name = ''web'', Release_Namespace = ''default'', Release_Version = 2,
         Release_Manifest = [] \<rparr>]"

definition helm0 :: "World HelmLibrary" where
  "helm0 =
     \<lparr> Driver_List = (\<lambda>driver w. (Ok releases0, called ''Driver.List'' w)),
       SortByRevision = sort_key (\<lambda>r. sint (Release_Version r)),
       Helm_Quote = (\<lambda>s. CHR 0x22 # s @ [CHR 0x22]) \<rparr>"

definition helper0 :: "World MaintenanceHelper" where
  "helper0 =
     \<lparr> Helm2ReleaseStorageNamespace = ''kube-system'',
       Helm2ReleaseStorageType = ''configmap'',
       v2Storage = None,
       v3ActionConfig =
         \<lparr> Releases_ListReleases =
             (\<lambda>w. (Ok [\<lparr> Release3_Name = ''api'' \<rparr>, \<lparr> Release3_Name = ''web'' \<rparr>,
                        \<lparr> Release3_Name = ''api'' \<rparr>],
                    called ''Releases.ListReleases'' w)) \<rparr> \<rparr>"

text \<open>A final tier whose listing names stage A twice.\<close>

definition finalListsTwice :: "(World, nat) StagesStorage" where
  "finalListsTwice = storageTier ''final'' [stageA, stageA] (\<lambda>i. Ok None) (Ok ())"

text \<open>The first and the second replication of the stage into a final tier.\<close>

definition afterFirstCopy :: "unit res \<times> (World, nat) StorageManager \<times> World" where
  "afterFirstCopy =
     CopyStageIntoFinalRepo env0 (managerOf primaryOK (Some finalEmpty)) stage0 runtime0 world0"

definition firstCopyListedTwice :: "unit res \<times> (World, nat) StorageManager \<times> World" where
  "firstCopyListedTwice =
     CopyStageIntoFinalRepo env0 (managerOf primaryOK (Some finalListsTwice)) stage0 runtime0
       world0"

definition secondCopyListedTwice :: "unit res \<times> (World, nat) StorageManager \<times> World" where
  "secondCopyListedTwice =
     CopyStageIntoFinalRepo env0 (fst (snd firstCopyListedTwice)) stage0 runtime0
       (snd (snd firstCopyListedTwice))"

section \<open>Unfolding the concrete world\<close>

lemmas world_defs = called_def world0_def
lemmas stage_defs = stageA_def stageB_def stageC_def describedIn_def
lemmas tier_defs = storageTier_def primaryABC_def primaryRejectFails_def primaryOK_def
  finalEmpty_def finalListsTwice_def lookupABC_def
lemmas env_defs = env0_def runtime0_def locks0_def index0_def managerOf_def stage0_def
  noReset_def withReset_def
lemmas helm_defs = helm0_def helper0_def releases0_def
lemmas resolver_defs = getStageDescription_def getStageDescriptionFromCaches_def
  getStageDescriptionFromStagesStorage_def getStageDescriptionFromLocalManifestCache_def
  storeStageDescriptionIntoLocalManifestCache_def getWithLocalManifestCacheOption_def
  checked_def
lemmas copy_defs = CopyStageIntoFinalRepo_def getOrCreateFinalStagesListCache_def
  FetchStage_def LockStageImage_def fetchStageLocked_def fetchFromPrimary_def doFetchStage_def
  copyStageIntoStagesStorage_def storeStageDescriptionIntoLocalManifestCache_def checked_def
  NewStagesList_def GetStageIDs_def AddStageID_def IsEqual_def
  convertStageDescriptionForStagesStorage_def

section \<open>Suffix detection of the sentinels\<close>

lemma HasSuffix_iff_suffix: "HasSuffix s suff \<longleftrightarrow> suffix suff s"
proof
  assume "HasSuffix s suff"
  then have "drop (length s - length suff) s = suff"
    by (simp add: HasSuffix_def)
  then have "s = take (length s - length suff) s @ suff"
    by (metis append_take_drop_id)
  then show "suffix suff s"
    by (metis suffixI)
next
  assume "suffix suff s"
  then obtain zs where "s = zs @ suff"
    by (auto simp: suffix_def)
  then show "HasSuffix s suff"
    by (simp add: HasSuffix_def)
qed

text \<open>
  C2. \<^verbatim>\<open>ShouldResetStagesStorageCache(e)\<close> holds exactly when \<open>e\<close> is not nil and its text
  ends with "should reset storage cache"; \<^verbatim>\<open>IsStageNotFound(e)\<close> holds exactly when
  \<open>e\<close> is not nil and its text ends with "stage not found"; so wrapping either sentinel
  behind any message prefix (any number of times) keeps the predicate true.
\<close>

theorem suffix_detection:
  "(ShouldResetStagesStorageCache bt e \<longleftrightarrow>
      (\<exists>err. e = Some err \<and> suffix ''should reset storage cache'' (Error bt err)))
   \<and> (IsStageNotFound bt e \<longleftrightarrow>
      (\<exists>err. e = Some err \<and> suffix ''stage not found'' (Error bt err)))
   \<and> ShouldResetStagesStorageCache bt (Some (Errorf p (Some ErrShouldResetStagesStorageCache)))
   \<and> IsStageNotFound bt (Some (Errorf p (Some ErrStageNotFound)))
   \<and> (ShouldResetStagesStorageCache bt (Some w) \<longrightarrow>
        ShouldResetStagesStorageCache bt (Some (Errorf q (Some w))))
   \<and> (IsStageNotFound bt (Some w) \<longrightarrow> IsStageNotFound bt (Some (Errorf q (Some w))))"
  by (cases e)
     (auto simp: ShouldResetStagesStorageCache_def IsStageNotFound_def HasSuffix_iff_suffix
        suffix_def)

theorem suffix_detection_witness:
  "ShouldResetStagesStorageCache ''broken image''
     (Some (Errorf ''unable to fetch stage from: '' (Some ErrShouldResetStagesStorageCache)))
   \<and> ShouldResetStagesStorageCache ''broken image''
     (Some (Errorf ''outer: ''
        (Some (Errorf ''unable to fetch stage from: '' (Some ErrShouldResetStagesStorageCache)))))
   \<and> \<not> ShouldResetStagesStorageCache ''broken image'' None
   \<and> \<not> IsStageNotFound ''broken image'' (Some ErrBrokenImage)"
  using suffix_detection [of "''broken image''"
      "Some (Errorf ''unable to fetch stage from: '' (Some ErrShouldResetStagesStorageCache))"
      "''unable to fetch stage from: ''"
      "Errorf ''unable to fetch stage from: '' (Some ErrShouldResetStagesStorageCache)"
      "''outer: ''"]
  by (simp add: ShouldResetStagesStorageCache_def IsStageNotFound_def HasSuffix_def)


section \<open>Rebranding\<close>

lemma FormatInt_examples:
  "FormatInt 1600000000123 = ''1600000000123'' \<and> FormatInt (- 12) = ''-12'' \<and> FormatInt 0 = ''0''"
  by (simp add: FormatInt_def FormatUint.simps digit_def)

text \<open>
  C6. Rebranding a description for a tier keeps the stage ID (digest and unique ID) and
  every field of the image info other than \<open>Name\<close> and \<open>Repository\<close>, and rebranding twice
  for the same tier is the same as rebranding once.
\<close>

theorem rebrand_preserves_and_idempotent:
  "StageID (convertStageDescriptionForStagesStorage d T) = StageID d
   \<and> Digest (StageID (convertStageDescriptionForStagesStorage d T)) = Digest (StageID d)
   \<and> UniqueID (StageID (convertStageDescriptionForStagesStorage d T)) = UniqueID (StageID d)
   \<and> Tag (Info (convertStageDescriptionForStagesStorage d T)) = Tag (Info d)
   \<and> RepoDigest (Info (convertStageDescriptionForStagesStorage d T)) = RepoDigest (Info d)
   \<and> ID (Info (convertStageDescriptionForStagesStorage d T)) = ID (Info d)
   \<and> ParentID (Info (convertStageDescriptionForStagesStorage d T)) = ParentID (Info d)
   \<and> Labels (Info (convertStageDescriptionForStagesStorage d T)) = Labels (Info d)
   \<and> Size (Info (convertStageDescriptionForStagesStorage d T)) = Size (Info d)
   \<and> CreatedAtUnixNano (Info (convertStageDescriptionForStagesStorage d T))
       = CreatedAtUnixNano (Info d)
   \<and> convertStageDescriptionForStagesStorage (convertStageDescriptionForStagesStorage d T) T
       = convertStageDescriptionForStagesStorage d T"
  by (simp add: convertStageDescriptionForStagesStorage_def)

theorem rebrand_preserves_and_idempotent_witness:
  "convertStageDescriptionForStagesStorage (describedIn ''primary'' stageA) finalEmpty
     = \<lparr> StageID = stageA,
         Info = \<lparr> Name = ''final:abc-1'', Repository = ''final'', Tag = ''abc'',
                  RepoDigest = ''sha256:0'', ID = ''sha256:1'', ParentID = ''sha256:2'',
                  Labels = Map.empty, Size = 10, CreatedAtUnixNano = 20 \<rparr> \<rparr>
   \<and> convertStageDescriptionForStagesStorage
         (convertStageDescriptionForStagesStorage (describedIn ''primary'' stageA) finalEmpty)
         finalEmpty
     = convertStageDescriptionForStagesStorage (describedIn ''primary'' stageA) finalEmpty"
  using rebrand_preserves_and_idempotent [of "describedIn ''primary'' stageA" finalEmpty]
  by (simp add: convertStageDescriptionForStagesStorage_def FormatInt_def FormatUint.simps
      digit_def tier_defs stage_defs)

section \<open>Unique IDs and selection\<close>

text \<open>
  C7. \<^verbatim>\<open>GenerateStageUniqueID\<close> reads the clock once and returns
  \<open>uniqueID = unixSeconds * 1000 + milliseconds\<close> with the image name the primary tier
  constructs for the digest and that unique ID; the candidates have no influence on the
  result, whatever their names are.
\<close>

theorem generated_unique_id:
  "GenerateStageUniqueID env m digest stages w =
     ((ConstructStageImageName (StagesStorage m) (ProjectName m) digest
         (Unix (fst (TimeNow env w)) * 1000
            + of_nat (Nanosecond (fst (TimeNow env w)) div 1000000)),
       Unix (fst (TimeNow env w)) * 1000
         + of_nat (Nanosecond (fst (TimeNow env w)) div 1000000)),
      snd (TimeNow env w))
   \<and> GenerateStageUniqueID env m digest stages w = GenerateStageUniqueID env m digest [] w"
  by (cases "TimeNow env w") (simp add: GenerateStageUniqueID_def Let_def split: unit.split)

theorem generated_unique_id_witness:
  "GenerateStageUniqueID env0 (managerOf primaryABC None) ''abc'' [describedIn ''primary'' stageA]
     world0
     = ((''primary:abc'', 1600000000123), called ''time.Now'' world0)
   \<and> Name (Info (describedIn ''primary'' stageA)) = ''primary:abc''"
  using generated_unique_id [of env0 "managerOf primaryABC None" "''abc''"
      "[describedIn ''primary'' stageA]" world0]
  by (simp add: env_defs tier_defs stage_defs)

text \<open>
  C8. \<^verbatim>\<open>SelectSuitableStage\<close> on an empty candidate list returns no description and no
  error, and leaves the world as it was: the selection policy of the stage is not run.
\<close>

theorem select_empty:
  "SelectSuitableStage env m c stg [] w = (Ok None, w)"
  by (simp add: SelectSuitableStage_def)

theorem select_empty_witness:
  "SelectSuitableStage env0 (managerOf primaryABC None) () stage0 [] world0 = (Ok None, world0)
   \<and> snd (SelectSuitableStage env0 (managerOf primaryABC None) () stage0
            [describedIn ''primary'' stageC] world0)
       = called ''stage.SelectSuitableStage'' world0"
  using select_empty [where env = env0 and m = "managerOf primaryABC None" and stg = stage0
      and w = world0]
  by (simp add: SelectSuitableStage_def env_defs)

section \<open>The release lists of the helm helper\<close>

lemma set_firstOccurrences: "set (firstOccurrences xs) = set xs"
  by (induction xs rule: firstOccurrences.induct) auto

lemma distinct_firstOccurrences: "distinct (firstOccurrences xs)"
  by (induction xs rule: firstOccurrences.induct) (auto simp: set_firstOccurrences)

lemma firstOccurrences_filter:
  "firstOccurrences (filter P xs) = filter P (firstOccurrences xs)"
proof (induction xs rule: firstOccurrences.induct)
  case 1
  then show ?case by simp
next
  case (2 x xs)
  have comm: "filter (\<lambda>y. y \<noteq> x) (filter P xs) = filter P (filter (\<lambda>y. y \<noteq> x) xs)"
    by (induction xs) auto
  show ?case
  proof (cases "P x")
    case True
    have "firstOccurrences (filter P (x # xs))
          = x # firstOccurrences (filter (\<lambda>y. y \<noteq> x) (filter P xs))"
      using True by simp
    also have "\<dots> = x # firstOccurrences (filter P (filter (\<lambda>y. y \<noteq> x) xs))"
      by (simp only: comm)
    also have "\<dots> = x # filter P (firstOccurrences (filter (\<lambda>y. y \<noteq> x) xs))"
      using 2 by simp
    finally show ?thesis using True by simp
  next
    case False
    have "filter P xs = filter P (filter (\<lambda>y. y \<noteq> x) xs)"
      using False by (induction xs) auto
    then have "firstOccurrences (filter P (x # xs))
               = firstOccurrences (filter P (filter (\<lambda>y. y \<noteq> x) xs))"
      using False by simp
    then show ?thesis using False 2 by simp
  qed
qed

lemma AppendUniqReleases_eq:
  "AppendUniqReleases f rels acc
     = acc @ firstOccurrences (filter (\<lambda>n. n \<notin> set acc) (map f rels))"
proof (induction rels arbitrary: acc)
  case Nil
  then show ?case by simp
next
  case (Cons r rels)
  show ?case
  proof (cases "f r \<in> set acc")
    case True
    then show ?thesis using Cons by (simp add: list_ex_iff)
  next
    case False
    have "filter (\<lambda>n. n \<notin> set (acc @ [f r])) (map f rels)
          = filter (\<lambda>y. y \<noteq> f r) (filter (\<lambda>n. n \<notin> set acc) (map f rels))"
      by (induction rels) auto
    then show ?thesis using False Cons by (simp add: list_ex_iff)
  qed
qed

lemma count_list_distinct: "distinct xs \<Longrightarrow> x \<in> set xs \<Longrightarrow> count_list xs x = 1"
  by (induction xs) auto

lemma count_firstOccurrences:
  "x \<in> set xs \<Longrightarrow> count_list (firstOccurrences xs) x = 1"
  by (simp add: count_list_distinct distinct_firstOccurrences set_firstOccurrences)

text \<open>
  C9. When the storage can be read, \<^verbatim>\<open>GetHelm2ReleasesList\<close> and \<^verbatim>\<open>GetHelm3ReleasesList\<close>
  return the release names without duplicates: every name held by the storage occurs
  exactly once, in the order of first occurrence.
\<close>

theorem releases_lists_unique:
  "(initHelm2Storage lib helper = (Ok storage, helper1)
      \<longrightarrow> Driver_List lib storage w = (Ok releases, w1)
      \<longrightarrow> (\<exists>res. GetHelm2ReleasesList lib helper w = (Ok res, helper1, w1)
            \<and> distinct res
            \<and> set res = Release_Name ` set releases
            \<and> (\<forall>n \<in> Release_Name ` set releases. count_list res n = 1)
            \<and> res = firstOccurrences (map Release_Name releases)))
   \<and> (Releases_ListReleases (v3ActionConfig helper) w = (Ok releases3, w3)
      \<longrightarrow> (\<exists>res. GetHelm3ReleasesList helper w = (Ok res, w3)
            \<and> distinct res
            \<and> set res = Release3_Name ` set releases3
            \<and> (\<forall>n \<in> Release3_Name ` set releases3. count_list res n = 1)
            \<and> res = firstOccurrences (map Release3_Name releases3)))"
  by (simp add: GetHelm2ReleasesList_def GetHelm3ReleasesList_def ListReleases_def
      ListFilterAll_def AppendUniqReleases_eq distinct_firstOccurrences set_firstOccurrences
      count_firstOccurrences)

theorem releases_lists_unique_witness:
  "GetHelm2ReleasesList helm0 helper0 world0
     = (Ok [''web'', ''db''], helper0\<lparr> v2Storage := Some (ConfigMaps ''kube-system'') \<rparr>,
        called ''Driver.List'' world0)
   \<and> GetHelm3ReleasesList helper0 world0
     = (Ok [''api'', ''web''], called ''Releases.ListReleases'' world0)"
proof -
  have init: "initHelm2Storage helm0 helper0
                = (Ok (ConfigMaps ''kube-system''),
                   helper0\<lparr> v2Storage := Some (ConfigMaps ''kube-system'') \<rparr>)"
    by (simp add: initHelm2Storage_def helm_defs)
  have lst: "Driver_List helm0 (ConfigMaps ''kube-system'') world0
               = (Ok releases0, called ''Driver.List'' world0)"
    by (simp add: helm_defs)
  have lst3: "Releases_ListReleases (v3ActionConfig helper0) world0
                = (Ok [\<lparr> Release3_Name = ''api'' \<rparr>, \<lparr> Release3_Name = ''web'' \<rparr>,
                       \<lparr> Release3_Name = ''api'' \<rparr>],
                   called ''Releases.ListReleases'' world0)"
    by (simp add: helm_defs)
  from releases_lists_unique [where lib = helm0 and helper = helper0
      and storage = "ConfigMaps ''kube-system''"
      and ?helper1.0 = "helper0\<lparr> v2Storage := Some (ConfigMaps ''kube-system'') \<rparr>"
      and w = world0 and releases = releases0 and ?w1.0 = "called ''Driver.List'' world0"
      and ?releases3.0 = "[\<lparr> Release3_Name = ''api'' \<rparr>, \<lparr> Release3_Name = ''web'' \<rparr>,
                          \<lparr> Release3_Name = ''api'' \<rparr>]"
      and ?w3.0 = "called ''Releases.ListReleases'' world0"] init lst lst3
  show ?thesis
    by (simp add: releases0_def)
qed

lemma sorted_last_max:
  assumes "sorted (map f xs)" and "x \<in> set xs"
  shows "f x \<le> f (last xs)"
proof -
  obtain i where i: "i < length xs" "xs ! i = x"
    using assms(2) by (auto simp: in_set_conv_nth)
  have ne: "xs \<noteq> []" using assms(2) by auto
  have "map f xs ! i \<le> map f xs ! (length xs - 1)"
    using assms(1) i(1) by (intro sorted_nth_mono) auto
  then show ?thesis
    using i ne by (simp add: last_conv_nth)
qed

lemma Reverse_head:
  assumes perm: "mset (srt xs) = mset xs"
      and srtd: "sorted (map f (srt xs))"
      and ne: "xs \<noteq> []"
  shows "\<exists>r rest. Reverse xs srt = r # rest \<and> r \<in> set xs \<and> (\<forall>r' \<in> set xs. f r' \<le> f r)"
proof -
  have set_eq: "set (srt xs) = set xs"
    using perm by (metis set_mset_mset)
  have ne': "srt xs \<noteq> []"
    using ne set_eq by auto
  then have "Reverse xs srt = last (srt xs) # rev (butlast (srt xs))"
    unfolding Reverse_def by (metis append_butlast_last_id rev.simps(2) rev_rev_ident rev_append append_Cons append_Nil rev_singleton_conv)
  moreover have "last (srt xs) \<in> set xs"
    using ne' set_eq by (metis last_in_set)
  moreover have "\<forall>r' \<in> set xs. f r' \<le> f (last (srt xs))"
    using sorted_last_max [OF srtd] set_eq by blast
  ultimately show ?thesis by blast
qed

text \<open>
  C10. With a storage that can be read and a library sort that is a sort (it permutes its
  list and orders it by revision): \<^verbatim>\<open>GetHelm2ReleaseData\<close> returns the error
  "release not found" exactly when no stored record has the given name; otherwise it
  returns a stored record of that name whose revision is the highest among them.
\<close>

theorem helm2_release_data:
  assumes sort_perm: "\<forall>xs. mset (SortByRevision lib xs) = mset xs"
      and sort_sorted:
        "\<forall>xs. sorted (map (\<lambda>r. sint (Release_Version r)) (SortByRevision lib xs))"
      and init: "initHelm2Storage lib helper = (Ok storage, helper1)"
      and lst: "Driver_List lib storage w = (Ok releases, w1)"
  shows "(GetHelm2ReleaseData lib helper releaseName w
            = (Err (Errorf ''release not found'' None), helper1, w1)
          \<longleftrightarrow> (\<forall>r \<in> set releases. Release_Name r \<noteq> releaseName))
       \<and> ((\<exists>r \<in> set releases. Release_Name r = releaseName) \<longrightarrow>
            (\<exists>r. GetHelm2ReleaseData lib helper releaseName w = (Ok \<lparr> Release = r \<rparr>, helper1, w1)
               \<and> r \<in> set releases \<and> Release_Name r = releaseName
               \<and> (\<forall>r' \<in> set releases. Release_Name r' = releaseName
                     \<longrightarrow> sint (Release_Version r') \<le> sint (Release_Version r))))"
proof (cases "filter (\<lambda>rel. Release_Name rel = releaseName) releases = []")
  case True
  then have none: "\<forall>r \<in> set releases. Release_Name r \<noteq> releaseName"
    by (simp add: filter_empty_conv)
  have "GetHelm2ReleaseData lib helper releaseName w
          = (Err (Errorf ''release not found'' None), helper1, w1)"
    using True init lst by (simp add: GetHelm2ReleaseData_def ListFilterAll_def)
  then show ?thesis using none by blast
next
  case False
  let ?ms = "filter (\<lambda>rel. Release_Name rel = releaseName) releases"
  obtain r rest where r: "Reverse ?ms (SortByRevision lib) = r # rest" "r \<in> set ?ms"
      "\<forall>r' \<in> set ?ms. sint (Release_Version r') \<le> sint (Release_Version r)"
    using Reverse_head [of "SortByRevision lib" ?ms "\<lambda>r. sint (Release_Version r)"]
      sort_perm sort_sorted False by blast
  have res: "GetHelm2ReleaseData lib helper releaseName w = (Ok \<lparr> Release = r \<rparr>, helper1, w1)"
    using False init lst r(1) by (simp add: GetHelm2ReleaseData_def ListFilterAll_def)
  have some: "\<exists>r \<in> set releases. Release_Name r = releaseName"
    using False by (auto simp: filter_empty_conv)
  show ?thesis using res r(2,3) some by auto
qed

theorem helm2_release_data_witness:
  "GetHelm2ReleaseData helm0 helper0 ''web'' world0
     = (Ok \<lparr> Release = \<lparr> Release_Name = ''web'', Release_Namespace = ''default'',
                           Release_Version = 3, Release_Manifest = [] \<rparr> \<rparr>,
        helper0\<lparr> v2Storage := Some (ConfigMaps ''kube-system'') \<rparr>,
        called ''Driver.List'' world0)
   \<and> GetHelm2ReleaseData helm0 helper0 ''cron'' world0
     = (Err (Errorf ''release not found'' None),
        helper0\<lparr> v2Storage := Some (ConfigMaps ''kube-system'') \<rparr>,
        called ''Driver.List'' world0)"
proof -
  have perm: "\<forall>xs. mset (SortByRevision helm0 xs) = mset xs"
    by (simp add: helm0_def)
  have srtd: "\<forall>xs. sorted (map (\<lambda>r. sint (Release_Version r)) (SortByRevision helm0 xs))"
    by (simp add: helm0_def)
  have init: "initHelm2Storage helm0 helper0
                = (Ok (ConfigMaps ''kube-system''),
                   helper0\<lparr> v2Storage := Some (ConfigMaps ''kube-system'') \<rparr>)"
    by (simp add: initHelm2Storage_def helm_defs)
  have lst: "Driver_List helm0 (ConfigMaps ''kube-system'') world0
               = (Ok releases0, called ''Driver.List'' world0)"
    by (simp add: helm_defs)
  have web: "\<exists>r \<in> set releases0. Release_Name r = ''web''"
    by (simp add: releases0_def)
  have cron: "\<forall>r \<in> set releases0. Release_Name r \<noteq> ''cron''"
    by (simp add: releases0_def)
  from helm2_release_data [OF perm srtd init lst, of "''web''"] web
  obtain r where r: "GetHelm2ReleaseData helm0 helper0 ''web'' world0
        = (Ok \<lparr> Release = r \<rparr>, helper0\<lparr> v2Storage := Some (ConfigMaps ''kube-system'') \<rparr>,
           called ''Driver.List'' world0)"
      "r \<in> set releases0" "Release_Name r = ''web''"
      "\<forall>r' \<in> set releases0. Release_Name r' = ''web''
          \<longrightarrow> sint (Release_Version r') \<le> sint (Release_Version r)"
    by blast
  have "r = \<lparr> Release_Name = ''web'', Release_Namespace = ''default'',
              Release_Version = 3, Release_Manifest = [] \<rparr>"
    using r(2,3,4) by (auto simp: releases0_def)
  moreover have "GetHelm2ReleaseData helm0 helper0 ''cron'' world0
     = (Err (Errorf ''release not found'' None),
        helper0\<lparr> v2Storage := Some (ConfigMaps ''kube-system'') \<rparr>,
        called ''Driver.List'' world0)"
    using helm2_release_data [OF perm srtd init lst, of "''cron''"] cron by blast
  ultimately show ?thesis using r(1) by simp
qed

section \<open>The resolver on a broken image\<close>

text \<open>
  C3, as amended. When the lookup reaches the target tier and the tier reports a broken
  image: with \<open>AllowStagesStorageCacheReset\<close> the resolver calls \<^verbatim>\<open>RejectStage\<close> on the tier
  and, if the rejection succeeds, returns \<^verbatim>\<open>ErrShouldResetStagesStorageCache\<close>; if the
  rejection fails it returns an error that wraps the failure. Without
  \<open>AllowStagesStorageCacheReset\<close> it returns no description and no error, in the world the
  tier's answer left: nothing is rejected.
\<close>

theorem resolver_broken_image:
  assumes reach: "getStageDescriptionFromCaches env projectName stageID tier caches opts w
                    = (Ok None, w1)"
      and broken: "GetStageDescription tier projectName (Digest stageID) (UniqueID stageID) w1
                    = (Err ErrBrokenImage, w2)"
  shows "(AllowStagesStorageCacheReset opts
            \<and> RejectStage tier projectName (Digest stageID) (UniqueID stageID) w2 = (Ok u, w3)
          \<longrightarrow> getStageDescription env projectName stageID tier caches opts w
                = (Err ErrShouldResetStagesStorageCache, w3))
       \<and> (AllowStagesStorageCacheReset opts
            \<and> RejectStage tier projectName (Digest stageID) (UniqueID stageID) w2 = (Err e, w3)
          \<longrightarrow> getStageDescription env projectName stageID tier caches opts w
                = (Err (Errorf (''unable to reject stage '' @ StageID_String env stageID
                         @ '' image ''
                         @ ConstructStageImageName tier projectName (Digest stageID)
                             (UniqueID stageID)
                         @ '' in the stages storage '' @ String tier @ '': '') (Some e)), w3))
       \<and> (\<not> AllowStagesStorageCacheReset opts
          \<longrightarrow> getStageDescription env projectName stageID tier caches opts w = (Ok None, w2))"
  using reach broken
  by (simp add: getStageDescription_def getStageDescriptionFromStagesStorage_def checked_def)

theorem resolver_broken_image_witness:
  "getStageDescription env0 ''project'' stageA primaryABC [] withReset world0
     = (Err ErrShouldResetStagesStorageCache,
        \<lparr> calls = [''primary.GetStageDescription'', ''primary.RejectStage''], index = [],
          rejected = [stageA] \<rparr>)
   \<and> getStageDescription env0 ''project'' stageA primaryRejectFails [] withReset world0
     = (Err (Errorf
          ''unable to reject stage abc image primary:abc in the stages storage primary: ''
          (Some (Errorf ''registry is read-only'' None))),
        \<lparr> calls = [''primary.GetStageDescription'', ''primary.RejectStage''], index = [],
          rejected = [] \<rparr>)
   \<and> getStageDescription env0 ''project'' stageA primaryABC [] noReset world0
     = (Ok None, \<lparr> calls = [''primary.GetStageDescription''], index = [], rejected = [] \<rparr>)"
proof -
  let ?w2 = "\<lparr> calls = [''primary.GetStageDescription''], index = [], rejected = [] \<rparr>"
  let ?w3 = "\<lparr> calls = [''primary.GetStageDescription'', ''primary.RejectStage''],
               index = [], rejected = [stageA] \<rparr>"
  let ?w3f = "\<lparr> calls = [''primary.GetStageDescription'', ''primary.RejectStage''],
                index = [], rejected = [] \<rparr>"
  have reach: "getStageDescriptionFromCaches env0 ''project'' stageA T [] opts world0
                 = (Ok None, world0)"
    if "opts = withReset \<or> opts = noReset" for T opts
    using that by (auto simp: getStageDescriptionFromCaches_def withReset_def noReset_def)
  have broken: "GetStageDescription primaryABC ''project'' (Digest stageA) (UniqueID stageA)
                  world0 = (Err ErrBrokenImage, ?w2)"
    by (simp add: tier_defs stage_defs world_defs)
  have brokenf: "GetStageDescription primaryRejectFails ''project'' (Digest stageA)
                   (UniqueID stageA) world0 = (Err ErrBrokenImage, ?w2)"
    by (simp add: tier_defs stage_defs world_defs)
  have rej: "RejectStage primaryABC ''project'' (Digest stageA) (UniqueID stageA) ?w2
               = (Ok (), ?w3)"
    by (simp add: tier_defs stage_defs world_defs)
  have rejf: "RejectStage primaryRejectFails ''project'' (Digest stageA) (UniqueID stageA) ?w2
               = (Err (Errorf ''registry is read-only'' None), ?w3f)"
    by (simp add: tier_defs stage_defs world_defs)
  have a: "getStageDescription env0 ''project'' stageA primaryABC [] withReset world0
             = (Err ErrShouldResetStagesStorageCache, ?w3)"
    using resolver_broken_image [where env = env0 and projectName = "''project''"
        and stageID = stageA and tier = primaryABC and caches = "[]" and opts = withReset
        and w = world0 and ?w1.0 = world0 and ?w2.0 = ?w2 and ?w3.0 = ?w3 and u = "()"]
      reach broken rej
    by (simp add: withReset_def)
  have b: "getStageDescription env0 ''project'' stageA primaryRejectFails [] withReset world0
     = (Err (Errorf
          ''unable to reject stage abc image primary:abc in the stages storage primary: ''
          (Some (Errorf ''registry is read-only'' None))), ?w3f)"
    using resolver_broken_image [where env = env0 and projectName = "''project''"
        and stageID = stageA and tier = primaryRejectFails and caches = "[]"
        and opts = withReset and w = world0 and ?w1.0 = world0 and ?w2.0 = ?w2
        and ?w3.0 = ?w3f and e = "Errorf ''registry is read-only'' None"]
      reach brokenf rejf
    by (simp add: withReset_def tier_defs stage_defs env0_def)
  have c: "getStageDescription env0 ''project'' stageA primaryABC [] noReset world0
             = (Ok None, ?w2)"
    using resolver_broken_image [where env = env0 and projectName = "''project''"
        and stageID = stageA and tier = primaryABC and caches = "[]" and opts = noReset
        and w = world0 and ?w1.0 = world0 and ?w2.0 = ?w2]
      reach broken
    by (simp add: noReset_def)
  show ?thesis using a b c by simp
qed

text \<open>
  The claim C3 as first stated (the sentinel is returned whenever the tier reports a broken
  image and \<open>AllowStagesStorageCacheReset\<close> is set) fails where the rejection itself fails:
  the lookup reaches the tier, the tier reports a broken image, the reset is allowed, and
  the result is not the sentinel.
\<close>

theorem resolver_reject_failure_counterexample:
  "getStageDescriptionFromCaches env0 ''project'' stageA primaryRejectFails [] withReset world0
     = (Ok None, world0)
   \<and> fst (GetStageDescription primaryRejectFails ''project'' (Digest stageA) (UniqueID stageA)
            world0) = Err ErrBrokenImage
   \<and> AllowStagesStorageCacheReset withReset
   \<and> fst (getStageDescription env0 ''project'' stageA primaryRejectFails [] withReset world0)
       \<noteq> Err ErrShouldResetStagesStorageCache"
  by (simp add: getStageDescription_def getStageDescriptionFromCaches_def
      getStageDescriptionFromStagesStorage_def checked_def withReset_def tier_defs stage_defs
      world_defs)

section \<open>The fetch pipeline on a broken or missing stage of the primary tier\<close>

text \<open>
  \<^verbatim>\<open>doFetchStage\<close> wraps every error of the tier in a fresh error, so what it returns is
  never \<^verbatim>\<open>storage.ErrBrokenImage\<close> itself, and the branch of \<^verbatim>\<open>FetchStage\<close> that rejects
  the stage (\<^verbatim>\<open>err == storage.ErrBrokenImage\<close>) is never taken. A stage that the primary
  tier does not describe gives \<^verbatim>\<open>ErrStageNotFound\<close> itself, and \<^verbatim>\<open>FetchStage\<close> turns it
  into \<^verbatim>\<open>ErrShouldResetStagesStorageCache\<close> without a rejection.
\<close>

lemma doFetchStage_not_broken:
  "fst (doFetchStage env projectName stagesStorage stageID dockerImage w) \<noteq> Err ErrBrokenImage"
  by (auto simp: doFetchStage_def checked_def split: prod.splits res.splits option.splits)

lemma fetchFromPrimary_broken_image:
  assumes "Image_GetStageDescription env (GetImage stg) w = Some sd"
      and "GetStageDescription (StagesStorage m) (ProjectName m) (Digest (StageID sd))
             (UniqueID (StageID sd)) w = (Err ErrBrokenImage, w1)"
  shows "fetchFromPrimary env m stg w
           = (Err (Errorf (''unable to fetch stage '' @ StageID_String env (StageID sd)
                           @ '' from stages storage '' @ String (StagesStorage m) @ '': '')
                     (Some (Errorf ''unable to get stage description: '' (Some ErrBrokenImage)))),
              w1)"
  using assms by (simp add: fetchFromPrimary_def doFetchStage_def)

lemma fetchFromPrimary_stage_not_found:
  assumes "Image_GetStageDescription env (GetImage stg) w = Some sd"
      and "GetStageDescription (StagesStorage m) (ProjectName m) (Digest (StageID sd))
             (UniqueID (StageID sd)) w = (Ok None, w1)"
  shows "fetchFromPrimary env m stg w = (Err ErrShouldResetStagesStorageCache, w1)"
  using assms by (simp add: fetchFromPrimary_def doFetchStage_def)

lemma fetchFromPrimary_never_rejects_on_fetch_error:
  assumes "Image_GetStageDescription env (GetImage stg) w = Some sd"
      and "GetStageDescription (StagesStorage m) (ProjectName m) (Digest (StageID sd))
             (UniqueID (StageID sd)) w = (Ok (Some fresh), w1)"
      and "FetchImage (StagesStorage m) (GetImage stg)
             (Image_SetStageDescription env (GetImage stg) fresh w1) = (Err ErrBrokenImage, w2)"
  shows "\<exists>msg. fetchFromPrimary env m stg w = (Err (Errorf msg (Some (Errorf
     (''unable to fetch stage '' @ StageID_String env (StageID sd) @ '' image ''
         @ Image_Name env (GetImage stg) w2 @ '': '') (Some ErrBrokenImage)))), w2)"
  using assms by (simp add: fetchFromPrimary_def doFetchStage_def checked_def Let_def)

lemma fetchStageLocked_primary_failures:
  assumes should: "ShouldFetchImage (StagesStorage m) (GetImage stg) w = (Ok True, w1)"
      and none: "fetchFromCacheTiers env m containerRuntime stg (CacheStagesStorageList m) [] w1
                   = (Ok (None, refill), w2)"
      and desc: "Image_GetStageDescription env (GetImage stg) w2 = Some sd"
  shows "(GetStageDescription (StagesStorage m) (ProjectName m) (Digest (StageID sd))
            (UniqueID (StageID sd)) w2 = (Ok None, w3)
          \<longrightarrow> fetchStageLocked env m containerRuntime stg w
                = (Err ErrShouldResetStagesStorageCache, w3))
       \<and> (GetStageDescription (StagesStorage m) (ProjectName m) (Digest (StageID sd))
            (UniqueID (StageID sd)) w2 = (Err ErrBrokenImage, w3)
          \<longrightarrow> fetchStageLocked env m containerRuntime stg w
                = (Err (Errorf (''unable to fetch stage '' @ StageID_String env (StageID sd)
                           @ '' from stages storage '' @ String (StagesStorage m) @ '': '')
                     (Some (Errorf ''unable to get stage description: ''
                        (Some ErrBrokenImage)))), w3))"
  using should none
    fetchFromPrimary_stage_not_found [OF desc, of m w3]
    fetchFromPrimary_broken_image [OF desc, of m w3]
  by (simp add: fetchStageLocked_def checked_def)

text \<open>
  C1, on a concrete run. The primary tier reports a broken image for the stage and there
  is no cache tier. \<^verbatim>\<open>FetchStage\<close> returns a wrapped error that is not the sentinel (nor
  ends with its text), \<^verbatim>\<open>RejectStage\<close> is not among the calls made, and nothing is
  rejected in the tier.
\<close>

theorem fetch_broken_primary_not_rejected:
  "fst (GetStageDescription primaryABC ''project'' (Digest stageA) (UniqueID stageA) world0)
     = Err ErrBrokenImage
   \<and> fst (FetchStage env0 (managerOf primaryABC None) runtime0 stage0 world0)
     = Err (Errorf ''unable to fetch stage abc from stages storage primary: ''
              (Some (Errorf ''unable to get stage description: '' (Some ErrBrokenImage))))
   \<and> snd (snd (FetchStage env0 (managerOf primaryABC None) runtime0 stage0 world0))
     = \<lparr> calls = [''AcquireHostLock'', ''primary.ShouldFetchImage'',
                  ''primary.GetStageDescription''],
         index = [], rejected = [] \<rparr>
   \<and> \<not> ShouldResetStagesStorageCache ''broken image''
         (Some (Errorf ''unable to fetch stage abc from stages storage primary: ''
              (Some (Errorf ''unable to get stage description: '' (Some ErrBrokenImage)))))"
  by (simp add: FetchStage_def LockStageImage_def fetchStageLocked_def fetchFromPrimary_def
      doFetchStage_def checked_def ShouldResetStagesStorageCache_def HasSuffix_def
      env_defs tier_defs stage_defs world_defs)

section \<open>Replication into the final tier\<close>

lemma IsEqual_iff: "IsEqual a b \<longleftrightarrow> a = b"
  by (cases a, cases b) (auto simp: IsEqual_def)

lemma GetStageIDs_eq: "GetStageIDs l = StageIDs l"
proof -
  have "foldl (\<lambda>res stg. res @ [stg]) acc xs = acc @ xs" for acc and xs :: "StageID list"
    by (induction xs arbitrary: acc) auto
  then show ?thesis by (simp add: GetStageIDs_def)
qed

lemma list_ex_IsEqual: "list_ex (\<lambda>stg. IsEqual stg s) xs \<longleftrightarrow> s \<in> set xs"
  by (auto simp: list_ex_iff IsEqual_iff)

lemma count_list_pos: "x \<in> set xs \<Longrightarrow> 0 < count_list xs x"
  by (induction xs) auto

lemma AddStageID_count:
  "count_list (StageIDs (AddStageID s l)) s = max 1 (count_list (StageIDs l) s)"
  using count_list_pos [of s "StageIDs l"]
  by (auto simp: AddStageID_def list_ex_IsEqual)

lemma AddStageID_member: "s \<in> set (StageIDs (AddStageID s l))"
  by (auto simp: AddStageID_def list_ex_IsEqual)

lemma FetchStage_frame:
  assumes "FetchStage env m containerRuntime stg w = (r, m', w')"
  shows "FinalStagesListCache m' = FinalStagesListCache m
       \<and> FinalStagesStorage m' = FinalStagesStorage m
       \<and> ProjectName m' = ProjectName m"
  using assms
  by (auto simp: FetchStage_def LockStageImage_def Let_def
      split: prod.splits res.splits)

lemma getOrCreate_Ok:
  assumes "getOrCreateFinalStagesListCache env m w = (Ok l, m', w')"
  shows "FinalStagesListCache m' = Some l \<and> FinalStagesStorage m' = FinalStagesStorage m"
  using assms
  by (auto simp: getOrCreateFinalStagesListCache_def
      split: option.splits prod.splits res.splits)

lemma getOrCreate_cached:
  "FinalStagesListCache m = Some l \<Longrightarrow> getOrCreateFinalStagesListCache env m w = (Ok l, m, w)"
  by (simp add: getOrCreateFinalStagesListCache_def)

lemma CopyStageIntoFinalRepo_present:
  assumes "FinalStagesListCache m = Some l"
      and "Image_GetStageDescription env (GetImage stg) w = Some sd"
      and "FinalStagesStorage m = Some fs"
      and "StageID sd \<in> set (StageIDs l)"
  shows "CopyStageIntoFinalRepo env m stg containerRuntime w = (Ok (), m, w)"
  using assms
  by (simp add: CopyStageIntoFinalRepo_def getOrCreate_cached list_ex_IsEqual GetStageIDs_eq)

text \<open>
  C5, as amended. After a successful \<^verbatim>\<open>CopyStageIntoFinalRepo\<close>, a second call for the same
  stage ID succeeds and changes neither the manager nor the world (no lock, fetch, rename
  or store: it returns at the containment check), and the stages list holds the stage ID;
  it holds it exactly once provided the list as first obtained held it at most once.
\<close>

theorem final_copy_idempotent:
  assumes goc: "getOrCreateFinalStagesListCache env m w = (Ok l0, m0, w0)"
      and idA: "Image_GetStageDescription env (GetImage stg) w0 = Some sdA"
      and first: "CopyStageIntoFinalRepo env m stg containerRuntime w = (Ok (), m1, w1)"
      and idB: "Image_GetStageDescription env (GetImage stg) w1 = Some sdB"
      and same: "StageID sdB = StageID sdA"
  shows "CopyStageIntoFinalRepo env m1 stg containerRuntime w1 = (Ok (), m1, w1)
       \<and> (\<exists>l. FinalStagesListCache m1 = Some l
              \<and> StageID sdA \<in> set (StageIDs l)
              \<and> (count_list (StageIDs l0) (StageID sdA) \<le> 1
                    \<longrightarrow> count_list (StageIDs l) (StageID sdA) = 1))"
proof -
  from getOrCreate_Ok [OF goc]
  have c0: "FinalStagesListCache m0 = Some l0" and f0: "FinalStagesStorage m0 = FinalStagesStorage m"
    by simp_all
  obtain fs where fs: "FinalStagesStorage m0 = Some fs"
    using first goc idA by (cases "FinalStagesStorage m0") (auto simp: CopyStageIntoFinalRepo_def)
  show ?thesis
  proof (cases "StageID sdA \<in> set (StageIDs l0)")
    case True
    have "CopyStageIntoFinalRepo env m stg containerRuntime w = (Ok (), m0, w0)"
      using goc idA fs True
      by (simp add: CopyStageIntoFinalRepo_def list_ex_IsEqual GetStageIDs_eq)
    with first have eq: "m1 = m0" "w1 = w0" by simp_all
    have "CopyStageIntoFinalRepo env m1 stg containerRuntime w1 = (Ok (), m1, w1)"
      using CopyStageIntoFinalRepo_present [of m0 l0 env stg w0 sdA fs] c0 idA fs True eq
      by simp
    moreover have "count_list (StageIDs l0) (StageID sdA) \<le> 1
                   \<longrightarrow> count_list (StageIDs l0) (StageID sdA) = 1"
      using count_list_pos [OF True] by auto
    ultimately show ?thesis using c0 True eq by auto
  next
    case False
    obtain r2 m2 w2 where fetch: "FetchStage env m0 containerRuntime stg w0 = (r2, m2, w2)"
      by (metis prod_cases3)
    from FetchStage_frame [OF fetch]
    have c2: "FinalStagesListCache m2 = Some l0" and f2: "FinalStagesStorage m2 = Some fs"
      using c0 fs by simp_all
    have m1: "m1 = m2\<lparr> FinalStagesListCache := Some (AddStageID (StageID sdA) l0) \<rparr>"
      using first goc idA fs False fetch c2
      by (auto simp: CopyStageIntoFinalRepo_def list_ex_IsEqual GetStageIDs_eq Let_def
          split: res.splits prod.splits)
    have c1: "FinalStagesListCache m1 = Some (AddStageID (StageID sdA) l0)"
      and f1: "FinalStagesStorage m1 = Some fs"
      using m1 f2 by simp_all
    have "CopyStageIntoFinalRepo env m1 stg containerRuntime w1 = (Ok (), m1, w1)"
      using CopyStageIntoFinalRepo_present [OF c1 idB f1] same AddStageID_member by simp
    moreover have "count_list (StageIDs (AddStageID (StageID sdA) l0)) (StageID sdA) = 1"
      using False by (simp add: AddStageID_count)
    ultimately show ?thesis using c1 AddStageID_member by auto
  qed
qed

theorem final_copy_idempotent_witness:
  "fst afterFirstCopy = Ok ()
   \<and> calls (snd (snd afterFirstCopy))
       = [''final.GetStagesIDs'', ''AcquireHostLock'', ''primary.ShouldFetchImage'',
          ''primary.GetStageDescription'', ''SetStageDescription'', ''primary.FetchImage'',
          ''RenameImage'', ''final.StoreImage'', ''StoreImageInfo'', ''AccessImage'']
   \<and> CopyStageIntoFinalRepo env0 (fst (snd afterFirstCopy)) stage0 runtime0
         (snd (snd afterFirstCopy))
       = (Ok (), fst (snd afterFirstCopy), snd (snd afterFirstCopy))
   \<and> FinalStagesListCache (fst (snd afterFirstCopy)) = Some \<lparr> StageIDs = [stageA] \<rparr>
   \<and> count_list [stageA] stageA = 1"
proof -
  let ?m = "managerOf primaryOK (Some finalEmpty)"
  have goc: "getOrCreateFinalStagesListCache env0 ?m world0
               = (Ok \<lparr> StageIDs = [] \<rparr>,
                  ?m\<lparr> FinalStagesListCache := Some \<lparr> StageIDs = [] \<rparr> \<rparr>,
                  called ''final.GetStagesIDs'' world0)"
    by (simp add: getOrCreateFinalStagesListCache_def NewStagesList_def env_defs tier_defs)
  have idA: "Image_GetStageDescription env0 (GetImage stage0) w
               = Some (describedIn ''primary'' stageA)" for w
    by (simp add: env0_def)
  have ok: "fst afterFirstCopy = Ok ()"
    by (simp add: afterFirstCopy_def copy_defs env_defs tier_defs stage_defs world_defs)
  have cs: "calls (snd (snd afterFirstCopy))
       = [''final.GetStagesIDs'', ''AcquireHostLock'', ''primary.ShouldFetchImage'',
          ''primary.GetStageDescription'', ''SetStageDescription'', ''primary.FetchImage'',
          ''RenameImage'', ''final.StoreImage'', ''StoreImageInfo'', ''AccessImage'']"
    by (simp add: afterFirstCopy_def copy_defs env_defs tier_defs stage_defs world_defs)
  have first: "CopyStageIntoFinalRepo env0 ?m stage0 runtime0 world0
                 = (Ok (), fst (snd afterFirstCopy), snd (snd afterFirstCopy))"
    using ok by (simp add: afterFirstCopy_def prod_eq_iff)
  from final_copy_idempotent [OF goc idA first idA refl]
  obtain l where l: "CopyStageIntoFinalRepo env0 (fst (snd afterFirstCopy)) stage0 runtime0
         (snd (snd afterFirstCopy))
       = (Ok (), fst (snd afterFirstCopy), snd (snd afterFirstCopy))"
      "FinalStagesListCache (fst (snd afterFirstCopy)) = Some l"
      "StageID (describedIn ''primary'' stageA) \<in> set (StageIDs l)"
      "count_list (StageIDs l) (StageID (describedIn ''primary'' stageA)) = 1"
    by auto
  have "FinalStagesListCache (fst (snd afterFirstCopy)) = Some \<lparr> StageIDs = [stageA] \<rparr>"
    by (simp add: afterFirstCopy_def copy_defs env_defs tier_defs stage_defs world_defs)
  then show ?thesis using ok cs l(1) by simp
qed

text \<open>
  The claim C5 as first stated (exactly one entry in every case) fails where the listing of
  the final tier, from which the stages list is built, names the stage ID twice: both
  calls succeed at the containment check and the list still holds the two entries.
\<close>

theorem final_copy_listed_twice_counterexample:
  "fst firstCopyListedTwice = Ok ()
   \<and> fst secondCopyListedTwice = Ok ()
   \<and> FinalStagesListCache (fst (snd secondCopyListedTwice))
       = Some \<lparr> StageIDs = [stageA, stageA] \<rparr>
   \<and> count_list [stageA, stageA] stageA = 2"
  by (simp add: secondCopyListedTwice_def firstCopyListedTwice_def copy_defs env_defs tier_defs
      stage_defs world_defs Let_def)

section \<open>Refreshing the digest index\<close>

lemma resolvedDescriptions_Cons:
  "resolvedDescriptions ((i, found) # outs)
     = (case found of None \<Rightarrow> [] | Some d \<Rightarrow> [d]) @ resolvedDescriptions outs"
  by (simp add: resolvedDescriptions_def split: option.splits)

lemma getStagesDescriptionsLoop_resolveEach:
  "getStagesDescriptionsLoop env m st cl ids acc w =
     (case resolveEach env m st cl ids w of
        (Ok outcomes, w') \<Rightarrow> (Ok (acc @ resolvedDescriptions outcomes), w')
      | (Err err, w') \<Rightarrow> (Err err, w')
      | (Panic p, w') \<Rightarrow> (Panic p, w'))"
proof (induction ids arbitrary: acc w)
  case Nil
  then show ?case by (simp add: resolvedDescriptions_def)
next
  case (Cons i ids)
  show ?case
    by (simp add: Cons resolvedDescriptions_Cons split: prod.splits res.splits option.splits)
qed

lemma resolveEach_ids:
  "resolveEach env m st cl ids w = (Ok outcomes, w') \<Longrightarrow> map fst outcomes = ids"
proof (induction ids arbitrary: outcomes w)
  case Nil
  then show ?case by simp
next
  case (Cons i ids)
  then show ?case
    by (auto split: prod.splits res.splits)
qed


lemma manifest_cache_keeps_id:
  "getStageDescriptionFromLocalManifestCache env p stageID st w = (Ok (Some sd), w')
   \<Longrightarrow> StageID sd = stageID"
  by (auto simp: getStageDescriptionFromLocalManifestCache_def checked_def Let_def
      split: prod.splits res.splits option.splits)

lemma cache_tiers_keep_id:
  assumes "\<forall>tier \<in> set cl. \<forall>p d u w sd w'.
             GetStageDescription tier p d u w = (Ok (Some sd), w')
             \<longrightarrow> StageID sd = \<lparr> Digest = d, UniqueID = u \<rparr>"
      and "getStageDescriptionFromCacheTiers env p stageID st opts cl w = (Ok (Some sd), w')"
  shows "StageID sd = stageID"
  using assms
proof (induction cl arbitrary: w)
  case Nil
  then show ?case by simp
next
  case (Cons c cl)
  have c: "\<And>p d u w sd w'. GetStageDescription c p d u w = (Ok (Some sd), w')
             \<Longrightarrow> StageID sd = \<lparr> Digest = d, UniqueID = u \<rparr>"
    using Cons.prems(1) by simp blast
  have rest: "\<And>w. getStageDescriptionFromCacheTiers env p stageID st opts cl w = (Ok (Some sd), w')
             \<Longrightarrow> StageID sd = stageID"
    using Cons.IH Cons.prems(1) by auto
  show ?case
    using Cons.prems(2) rest
    by (auto simp: convertStageDescriptionForStagesStorage_def
        dest!: manifest_cache_keeps_id c
        split: prod.splits res.splits option.splits if_splits)
qed

lemma getStageDescription_keeps_id:
  assumes "\<forall>tier \<in> set (st # cl). \<forall>p d u w sd w'.
             GetStageDescription tier p d u w = (Ok (Some sd), w')
             \<longrightarrow> StageID sd = \<lparr> Digest = d, UniqueID = u \<rparr>"
      and "getStageDescription env p stageID st cl opts w = (Ok (Some sd), w')"
  shows "StageID sd = stageID"
proof -
  have st: "\<And>p d u w sd w'. GetStageDescription st p d u w = (Ok (Some sd), w')
             \<Longrightarrow> StageID sd = \<lparr> Digest = d, UniqueID = u \<rparr>"
    using assms(1) by simp blast
  have cl: "\<And>w w'. getStageDescriptionFromCacheTiers env p stageID st opts cl w = (Ok (Some sd), w')
             \<Longrightarrow> StageID sd = stageID"
    using cache_tiers_keep_id [of cl env p stageID st opts _ sd] assms(1) by auto
  show ?thesis
    using assms(2) cl
    by (auto simp: getStageDescription_def getStageDescriptionFromCaches_def
        getStageDescriptionFromStagesStorage_def checked_def Let_def
        dest!: manifest_cache_keeps_id st
        split: prod.splits res.splits option.splits if_splits)
qed

lemma resolveEach_keeps_ids:
  assumes "\<forall>tier \<in> set (st # cl). \<forall>p d u w sd w'.
             GetStageDescription tier p d u w = (Ok (Some sd), w')
             \<longrightarrow> StageID sd = \<lparr> Digest = d, UniqueID = u \<rparr>"
      and "resolveEach env m st cl ids w = (Ok outcomes, w')"
  shows "map StageID (resolvedDescriptions outcomes) = resolvedStageIDs outcomes"
  using assms(2)
proof (induction ids arbitrary: outcomes w)
  case Nil
  then show ?case by (simp add: resolvedDescriptions_def resolvedStageIDs_def)
next
  case (Cons i ids)
  from Cons.prems obtain found w1 outs where
    g: "getStageDescription env (ProjectName m) i st cl
          \<lparr> AllowStagesStorageCacheReset = False,
            WithLocalManifestCache = getWithLocalManifestCacheOption env m \<rparr> w = (Ok found, w1)"
    and r: "resolveEach env m st cl ids w1 = (Ok outs, w')"
    and o: "outcomes = (i, found) # outs"
    by (auto split: prod.splits res.splits)
  have ih: "map StageID (resolvedDescriptions outs) = resolvedStageIDs outs"
    using Cons.IH r by simp
  show ?case
  proof (cases found)
    case None
    then show ?thesis using ih o by (simp add: resolvedDescriptions_def resolvedStageIDs_def)
  next
    case (Some sd)
    then have "StageID sd = i"
      using getStageDescription_keeps_id [OF assms(1)] g by simp
    then show ?thesis
      using ih o Some by (simp add: resolvedDescriptions_def resolvedStageIDs_def)
  qed
qed

lemma refreshStagesByDigest_Ok:
  "refreshStagesByDigest env m stageName stageDigest w1 = (Ok stages, w4) \<longleftrightarrow>
     (\<exists>stageIDs w2 outcomes w3.
        GetStagesIDsByDigest (StagesStorage m) (ProjectName m) stageDigest w1 = (Ok stageIDs, w2)
      \<and> resolveEach env m (StagesStorage m) (CacheStagesStorageList m) stageIDs w2
          = (Ok outcomes, w3)
      \<and> Cache_StoreStagesByDigest (StagesStorageCache m) (ProjectName m) stageDigest
          (map StageID (resolvedDescriptions outcomes)) w3 = (Ok (), w4)
      \<and> stages = map Some (resolvedDescriptions outcomes))"
  by (auto simp: refreshStagesByDigest_def getStagesIDsByDigestFromStagesStorage_def
      getStagesDescriptions_def checked_def getStagesDescriptionsLoop_resolveEach Let_def
      split: prod.splits res.splits)

text \<open>
  C4. After a miss in the index cache, \<^verbatim>\<open>GetStagesByDigest\<close> returns a list exactly when
  it took the per-digest lock, listed the stage IDs of the primary tier, resolved each of
  them without an error, stored the stage IDs of the resolved descriptions in the index
  cache and released the lock; the list it returns holds the resolved descriptions. A
  stage ID whose resolution found nothing is in neither. When the tiers describe the
  stage they are asked for, the stored IDs are the listed IDs that resolved.
\<close>

theorem refresh_on_index_miss:
  assumes miss: "getStagesByDigestFromCache env m stageName stageDigest w
                   = (Ok (False, cached, None), w0)"
  shows "(GetStagesByDigest env m stageName stageDigest w = (Ok stages, w') \<longleftrightarrow>
           (\<exists>lock w1 stageIDs w2 outcomes w3 w4 u.
              LockStageCache (StorageLockManager m) (ProjectName m) stageDigest w0 = (Ok lock, w1)
            \<and> GetStagesIDsByDigest (StagesStorage m) (ProjectName m) stageDigest w1
                = (Ok stageIDs, w2)
            \<and> resolveEach env m (StagesStorage m) (CacheStagesStorageList m) stageIDs w2
                = (Ok outcomes, w3)
            \<and> Cache_StoreStagesByDigest (StagesStorageCache m) (ProjectName m) stageDigest
                (map StageID (resolvedDescriptions outcomes)) w3 = (Ok (), w4)
            \<and> Unlock (StorageLockManager m) lock w4 = (u, w') \<and> (\<forall>p. u \<noteq> Panic p)
            \<and> stages = map Some (resolvedDescriptions outcomes)))
       \<and> ((\<forall>tier \<in> set (StagesStorage m # CacheStagesStorageList m). \<forall>p d u w sd w'.
              GetStageDescription tier p d u w = (Ok (Some sd), w')
              \<longrightarrow> StageID sd = \<lparr> Digest = d, UniqueID = u \<rparr>)
           \<longrightarrow> resolveEach env m (StagesStorage m) (CacheStagesStorageList m) ids v
                 = (Ok outs, v')
           \<longrightarrow> map StageID (resolvedDescriptions outs) = resolvedStageIDs outs
               \<and> map fst outs = ids)"
proof -
  have "GetStagesByDigest env m stageName stageDigest w
        = atomicGetStagesByDigestWithStagesStorageCacheStore env m stageName stageDigest w0"
    using miss by (simp add: GetStagesByDigest_def)
  then have "(GetStagesByDigest env m stageName stageDigest w = (Ok stages, w')) \<longleftrightarrow>
      (\<exists>lock w1 w4 u.
          LockStageCache (StorageLockManager m) (ProjectName m) stageDigest w0 = (Ok lock, w1)
        \<and> refreshStagesByDigest env m stageName stageDigest w1 = (Ok stages, w4)
        \<and> Unlock (StorageLockManager m) lock w4 = (u, w') \<and> (\<forall>p. u \<noteq> Panic p))"
    by (auto simp: atomicGetStagesByDigestWithStagesStorageCacheStore_def deferred_def
        split: prod.splits res.splits)
  then show ?thesis
    using resolveEach_keeps_ids [of "StagesStorage m" "CacheStagesStorageList m" env m ids v outs v']
      resolveEach_ids [of env m "StagesStorage m" "CacheStagesStorageList m" ids v outs v']
    by (simp add: refreshStagesByDigest_Ok) blast
qed

theorem refresh_on_index_miss_witness:
  "GetStagesByDigest env0 (managerOf primaryABC None) ''install'' ''abc'' world0
     = (Ok [Some (describedIn ''primary'' stageC)],
        \<lparr> calls = [''GetStagesByDigest'', ''LockStageCache'', ''primary.GetStagesIDsByDigest'',
                    ''GetImageInfo'', ''primary.GetStageDescription'',
                    ''GetImageInfo'', ''primary.GetStageDescription'',
                    ''GetImageInfo'', ''primary.GetStageDescription'', ''StoreImageInfo'',
                    ''StoreStagesByDigest'', ''Unlock''],
          index = [(''abc'', [stageC])],
          rejected = [] \<rparr>)
   \<and> resolvedStageIDs [(stageA, None), (stageB, None),
                          (stageC, Some (describedIn ''primary'' stageC))] = [stageC]"
proof -
  let ?m = "managerOf primaryABC None"
  let ?W = "\<lambda>cs ix. \<lparr> calls = cs, index = ix, rejected = [] \<rparr>"
  let ?c0 = "[''GetStagesByDigest'']"
  let ?c1 = "?c0 @ [''LockStageCache'']"
  let ?c2 = "?c1 @ [''primary.GetStagesIDsByDigest'']"
  let ?c3 = "?c2 @ [''GetImageInfo'', ''primary.GetStageDescription'',
                    ''GetImageInfo'', ''primary.GetStageDescription'',
                    ''GetImageInfo'', ''primary.GetStageDescription'', ''StoreImageInfo'']"
  let ?c4 = "?c3 @ [''StoreStagesByDigest'']"
  let ?c5 = "?c4 @ [''Unlock'']"
  let ?outs = "[(stageA, None), (stageB, None), (stageC, Some (describedIn ''primary'' stageC))]"
  let ?lock = "\<lparr> UUID = ''uuid'', LockName = ''project.abc'' \<rparr>"
  have miss: "getStagesByDigestFromCache env0 ?m ''install'' ''abc'' world0
                = (Ok (False, [], None), ?W ?c0 [])"
    by (simp add: getStagesByDigestFromCache_def env_defs world_defs)
  have lock: "LockStageCache (StorageLockManager ?m) (ProjectName ?m) ''abc'' (?W ?c0 [])
                = (Ok ?lock, ?W ?c1 [])"
    by (simp add: env_defs world_defs)
  have ids: "GetStagesIDsByDigest (StagesStorage ?m) (ProjectName ?m) ''abc'' (?W ?c1 [])
               = (Ok [stageA, stageB, stageC], ?W ?c2 [])"
    by (simp add: env_defs tier_defs stage_defs world_defs)
  have res: "resolveEach env0 ?m (StagesStorage ?m) (CacheStagesStorageList ?m)
               [stageA, stageB, stageC] (?W ?c2 []) = (Ok ?outs, ?W ?c3 [])"
    by (simp add: resolver_defs env_defs tier_defs stage_defs world_defs)
  have descs: "map StageID (resolvedDescriptions ?outs) = [stageC]"
    by (simp add: resolvedDescriptions_def stage_defs)
  have store: "Cache_StoreStagesByDigest (StagesStorageCache ?m) (ProjectName ?m) ''abc''
                 (map StageID (resolvedDescriptions ?outs)) (?W ?c3 [])
                 = (Ok (), ?W ?c4 [(''abc'', [stageC])])"
    unfolding descs by (simp add: env_defs world_defs)
  have unlock: "Unlock (StorageLockManager ?m) ?lock (?W ?c4 [(''abc'', [stageC])])
                  = (Ok (), ?W ?c5 [(''abc'', [stageC])])"
    by (simp add: env_defs world_defs)
  have contract: "\<forall>tier \<in> set (StagesStorage ?m # CacheStagesStorageList ?m).
        \<forall>p d u w sd w'. GetStageDescription tier p d u w = (Ok (Some sd), w')
          \<longrightarrow> StageID sd = \<lparr> Digest = d, UniqueID = u \<rparr>"
    by (auto simp: env_defs tier_defs stage_defs split: if_splits)
  note inst = refresh_on_index_miss [OF miss,
      where stages = "map Some (resolvedDescriptions ?outs)"
        and w' = "?W ?c5 [(''abc'', [stageC])]"
        and ids = "[stageA, stageB, stageC]" and v = "?W ?c2 []" and outs = ?outs
        and v' = "?W ?c3 []"]
  have "GetStagesByDigest env0 ?m ''install'' ''abc'' world0
          = (Ok (map Some (resolvedDescriptions ?outs)), ?W ?c5 [(''abc'', [stageC])])"
    using inst lock ids res store unlock by blast
  moreover have "resolvedStageIDs ?outs = [stageC]"
    using inst contract res descs by simp
  ultimately show ?thesis
    by (simp add: resolvedDescriptions_def)
qed

end
